theory Spec2Isabelle
  imports Complex_Main "HOL-Library.Char_ord" "HOL-Library.List_Lexorder"
begin

section \<open>Static reference data of app.py\<close>

text \<open>
  The dashboard is one Streamlit script. Its tables are module constants; Python floats
  are read as the real numbers their literals denote, Python \<open>str\<close> as \<open>string\<close>
  (UTF-8 bytes for the few characters outside ASCII), a dict with a fixed set of keys as
  a record.
\<close>

record zone =
  zone_id :: string
  lat :: real
  lon :: real
  scene_id :: string

definition DANGER_ZONES :: "zone list" where
  "DANGER_ZONES =
     [\<lparr>zone_id = ''Z1'', lat = 40.20, lon = 49.80, scene_id = ''SCENARIO_001''\<rparr>,
      \<lparr>zone_id = ''Z2'', lat = 40.05, lon = 49.9, scene_id = ''SCENARIO_001''\<rparr>,
      \<lparr>zone_id = ''Z3'', lat = 39.90, lon = 50.00, scene_id = ''SCENARIO_001''\<rparr>]"

record history_event =
  date :: string
  hist_area_km2 :: real
  hist_spill_id :: string

definition HISTORY_DATA :: "(string \<times> history_event list) list" where
  "HISTORY_DATA =
     [(''Z1'', [\<lparr>date = ''2023-05-10'', hist_area_km2 = 1.8, hist_spill_id = ''H1''\<rparr>,
                \<lparr>date = ''2023-08-21'', hist_area_km2 = 2.2, hist_spill_id = ''H2''\<rparr>,
                \<lparr>date = ''2024-01-03'', hist_area_km2 = 1.1, hist_spill_id = ''H3''\<rparr>]),
      (''Z2'', [\<lparr>date = ''2022-11-02'', hist_area_km2 = 3.0, hist_spill_id = ''H4''\<rparr>]),
      (''Z3'', [\<lparr>date = ''2023-02-15'', hist_area_km2 = 0.9, hist_spill_id = ''H5''\<rparr>,
                \<lparr>date = ''2023-09-10'', hist_area_km2 = 1.2, hist_spill_id = ''H6''\<rparr>])]"

text \<open>The \<open>properties\<close> dict of a GeoJSON feature; the geometry is never read.\<close>

record spill_props =
  spill_id :: string
  area_km2 :: real
  oil_type :: string
  thickness_class :: string
  confidence :: real

definition spill_data :: "(string \<times> spill_props list) list" where
  "spill_data =
     [(''Z1'', [\<lparr>spill_id = ''S1'', area_km2 = 2.5, oil_type = ''crude'',
                 thickness_class = ''thick'', confidence = 0.92\<rparr>]),
      (''Z2'', [\<lparr>spill_id = ''S2'', area_km2 = 3.8, oil_type = ''crude'',
                 thickness_class = ''medium'', confidence = 0.88\<rparr>]),
      (''Z3'', [\<lparr>spill_id = ''S3'', area_km2 = 1.5, oil_type = ''crude'',
                 thickness_class = ''thin'', confidence = 0.79\<rparr>])]"

text \<open>\<open>spill_data.get(zone_id, {"features": []})["features"]\<close>, as a list of properties.\<close>

definition get_spill_geojson :: "string \<Rightarrow> spill_props list" where
  "get_spill_geojson z = (case map_of spill_data z of None \<Rightarrow> [] | Some fs \<Rightarrow> fs)"

definition get_zone_meta :: "string \<Rightarrow> zone option" where
  "get_zone_meta z = find (\<lambda>zn. zone_id zn = z) DANGER_ZONES"

section \<open>Rendering numbers\<close>

text \<open>The decimal digit \<open>d\<close>, for \<open>d < 10\<close> (every call below passes such a \<open>d\<close>).\<close>

definition digit_char :: "nat \<Rightarrow> char" where
  "digit_char d = ''0123456789'' ! d"

fun str_nat :: "nat \<Rightarrow> string" where
  "str_nat n = (if n < 10 then [digit_char n] else str_nat (n div 10) @ [digit_char (n mod 10)])"

declare str_nat.simps [simp del]

text \<open>Rounding to the nearest integer, an exact tie going to the even neighbour.\<close>

definition round_half_even :: "real \<Rightarrow> int" where
  "round_half_even y =
     (let f = \<lfloor>y\<rfloor>; r = y - of_int f
      in if r < 1 / 2 then f else if 1 / 2 < r then f + 1 else if even f then f else f + 1)"

text \<open>
  The format \<open>{x:.1f}\<close> of the real number \<open>x\<close>: one decimal place, correctly rounded,
  a minus sign in front of a negative value. Python applies it to the binary float; the
  areas of \<open>HISTORY_DATA\<close> are read here as the decimals written in the source, and
  none of their sums or maxima is within a float's error of a rounding boundary, so
  both readings print the same digits for the shipped table.
\<close>

definition fmt_1f :: "real \<Rightarrow> string" where
  "fmt_1f x =
     (let n = nat (round_half_even (\<bar>x\<bar> * 10))
      in (if x < 0 then ''-'' else []) @ str_nat (n div 10) @ ''.'' @ str_nat (n mod 10))"

text \<open>The superscript two of \<open>km\<^sup>2\<close>, U+00B2, and the warning sign U+26A0 U+FE0F, in UTF-8.\<close>

definition sup2 :: string where
  "sup2 = [CHR 0xC2, CHR 0xB2]"

definition warning_sign :: string where
  "warning_sign = [CHR 0xE2, CHR 0x9A, CHR 0xA0, CHR 0xEF, CHR 0xB8, CHR 0x8F]"

section \<open>Context summarizer\<close>

text \<open>
  \<open>max(xs)\<close> and \<open>max(xs, key=k)\<close> on a non-empty sequence: the running maximum is
  replaced only by a strictly greater element, so the first maximal element wins.
\<close>

fun max_by_key :: "('a \<Rightarrow> 'k::linorder) \<Rightarrow> 'a \<Rightarrow> 'a list \<Rightarrow> 'a" where
  "max_by_key k best [] = best"
| "max_by_key k best (x # xs) = max_by_key k (if k best < k x then x else best) xs"

definition no_history_text :: string where
  "no_history_text = ''No historical spills recorded for this zone.''"

definition history_sentence :: "nat \<Rightarrow> real \<Rightarrow> real \<Rightarrow> history_event \<Rightarrow> string" where
  "history_sentence total_events total_area max_area latest =
     ''This zone has '' @ str_nat total_events @ '' historical spills, '' @
     ''total affected area ~'' @ fmt_1f total_area @ '' km'' @ sup2 @ ''. '' @
     ''Largest historical spill ~'' @ fmt_1f max_area @ '' km'' @ sup2 @ ''. '' @
     ''Most recent spill on '' @ date latest @ '' with area ~'' @
     fmt_1f (hist_area_km2 latest) @ '' km'' @ sup2 @ ''.''"

text \<open>\<open>HISTORY_DATA.get(zone_id, [])\<close>.\<close>

definition history_events :: "string \<Rightarrow> history_event list" where
  "history_events z = (case map_of HISTORY_DATA z of None \<Rightarrow> [] | Some es \<Rightarrow> es)"

definition get_history_summary :: "string \<Rightarrow> string" where
  "get_history_summary z =
     (case history_events z of
        [] \<Rightarrow> no_history_text
      | e # es \<Rightarrow>
          history_sentence (length (e # es))
            (sum_list (map hist_area_km2 (e # es)))
            (max_by_key id (hist_area_km2 e) (map hist_area_km2 es))
            (max_by_key date e es))"

section \<open>Assistant gateway\<close>

datatype py_error = AttributeError | ValueError | StopIteration

text \<open>
  The external completion service is not part of the script. A call either raises an
  exception derived from \<open>Exception\<close>, whose \<open>str\<close> is carried, or returns a
  completion, given by the \<open>message.content\<close> of its \<open>choices\<close>. The client library
  types that content as an optional string: it is Python's \<open>None\<close>, here \<open>None\<close>, when
  the reply carries no text. A Python value that is a string or \<open>None\<close> is a
  \<open>string option\<close> throughout. Interpreter-level exceptions outside \<open>Exception\<close>
  (KeyboardInterrupt, SystemExit) end the process and are not part of the model. The
  request carries the fixed system prompt and the values interpolated into the user
  prompt; the text around them is constant.
\<close>

datatype llm_outcome = Raises string | Completion "string option list"

record llm_request =
  system_prompt :: string
  req_zone_name :: string
  req_zone_id :: string
  req_scene_id :: string
  req_lat :: real
  req_lon :: real
  req_spill :: spill_props
  req_history_text :: string
  req_user_question :: string

type_synonym llm_client = "llm_request \<Rightarrow> llm_outcome"

definition expert_prompt :: string where
  "expert_prompt =
     ''You are an expert assisting operators with offshore oil spill analysis. '' @
     ''Use the provided zone, spill attributes, and historical patterns to infer '' @
     ''likely sources, risk level, and recommended actions. Be concise but specific '' @
     ''and avoid inventing data not implied by the context.''"

definition no_key_text :: string where
  "no_key_text =
     warning_sign @ '' LLM API key not configured. '' @
     ''Set OPENAI_API_KEY in your environment to enable the assistant.''"

definition api_error_text :: "string \<Rightarrow> string" where
  "api_error_text e = warning_sign @ '' Error calling LLM API: '' @ e"

text \<open>
  \<open>client\<close> is the module's global, \<open>None\<close> without an API key. \<open>zone_meta\<close> is what
  \<open>get_zone_meta\<close> returned; \<open>zone_meta.get\<close> on Python's \<open>None\<close> raises AttributeError,
  outside the \<open>try\<close>. Inside the \<open>try\<close>, \<open>choices[0]\<close> on an empty list raises IndexError,
  which the \<open>except Exception\<close> turns into the error text. The content of the first
  choice is returned as it is, without a check that it is a string.
\<close>

definition llm_request_of :: "zone \<Rightarrow> spill_props \<Rightarrow> string \<Rightarrow> string \<Rightarrow> llm_request" where
  "llm_request_of zm props history_text user_question =
     \<lparr>system_prompt = expert_prompt, req_zone_name = zone_id zm, req_zone_id = zone_id zm,
      req_scene_id = scene_id zm, req_lat = lat zm, req_lon = lon zm, req_spill = props,
      req_history_text = history_text, req_user_question = user_question\<rparr>"

definition get_ai_response ::
  "llm_client option \<Rightarrow> zone option \<Rightarrow> spill_props \<Rightarrow> string \<Rightarrow> string
     \<Rightarrow> py_error + string option" where
  "get_ai_response client zone_meta props history_text user_question =
     (case client of
        None \<Rightarrow> Inr (Some no_key_text)
      | Some create \<Rightarrow>
          (case zone_meta of
             None \<Rightarrow> Inl AttributeError
           | Some zm \<Rightarrow>
               (case create (llm_request_of zm props history_text user_question) of
                  Raises e \<Rightarrow> Inr (Some (api_error_text e))
                | Completion [] \<Rightarrow> Inr (Some (api_error_text ''list index out of range''))
                | Completion (c # cs) \<Rightarrow> Inr c)))"

section \<open>Session state\<close>

record chat_message =
  role :: string
  content :: "string option"

record session_state =
  selected_zone_id :: "string option"
  selected_spill_id :: "string option"
  chat_messages :: "chat_message list"
  cleanup_status :: "string \<rightharpoonup> string"

definition init_cleanup_status :: "string \<rightharpoonup> string" where
  "init_cleanup_status =
     fold (\<lambda>zn status.
             fold (\<lambda>f st. if spill_id f \<noteq> [] then st(spill_id f \<mapsto> ''idle'') else st)
               (get_spill_geojson (zone_id zn)) status)
       DANGER_ZONES Map.empty"

definition initial_state :: session_state where
  "initial_state =
     \<lparr>selected_zone_id = None, selected_spill_id = None, chat_messages = [],
      cleanup_status = init_cleanup_status\<rparr>"

text \<open>\<open>cleanup_status.get(sid, "idle")\<close>.\<close>

definition status_get :: "(string \<rightharpoonup> string) \<Rightarrow> string \<Rightarrow> string" where
  "status_get m sid = (case m sid of None \<Rightarrow> ''idle'' | Some v \<Rightarrow> v)"

text \<open>
  How a block of the script ends: it falls through to the next block, it calls
  \<open>st.rerun()\<close>, which abandons the run, or it raises. The session state assigned so far
  is kept in each case.
\<close>

datatype flow = Continue | Rerun | Raised py_error

section \<open>Sidebar: zone selection\<close>

definition zone_options :: "string list" where
  "zone_options = ''None'' # map zone_id DANGER_ZONES"

text \<open>\<open>s.split(sep)[0]\<close>: the part of \<open>s\<close> before the first occurrence of \<open>sep\<close>.\<close>

fun split_head :: "string \<Rightarrow> string \<Rightarrow> string" where
  "split_head sep [] = []"
| "split_head sep (c # cs) =
     (if take (length sep) (c # cs) = sep then [] else c # split_head sep cs)"

definition new_zone_id_of :: "string \<Rightarrow> string option" where
  "new_zone_id_of selected_zone_option =
     (if selected_zone_option \<noteq> ''None'' then Some (split_head '' - '' selected_zone_option)
      else None)"

definition select_zone :: "string option \<Rightarrow> session_state \<Rightarrow> session_state" where
  "select_zone z st = st\<lparr>selected_zone_id := z, selected_spill_id := None, chat_messages := []\<rparr>"

definition sidebar_zone_selection :: "string \<Rightarrow> session_state \<Rightarrow> session_state \<times> flow" where
  "sidebar_zone_selection selected_zone_option st =
     (let new_zone_id = new_zone_id_of selected_zone_option
      in if new_zone_id \<noteq> selected_zone_id st then (select_zone new_zone_id st, Rerun)
         else (st, Continue))"

section \<open>Map click\<close>

text \<open>
  The distance of line 523, \<open>((lat - clat) ** 2 + (lon - clon) ** 2) ** 0.5\<close>, read over
  the reals. The script computes it in binary floating point with the C library's power
  function and compares it with the float \<open>0.2\<close>; within a rounding error of the
  threshold, or of a tie between two zones, the script may decide otherwise than these
  definitions. Nothing below is stated about such clicks: the only clicks evaluated are
  those on a zone's own centre, where the distance is zero on either reading.
\<close>

definition zone_distance :: "real \<Rightarrow> real \<Rightarrow> zone \<Rightarrow> real" where
  "zone_distance clat clon zn = sqrt ((lat zn - clat)\<^sup>2 + (lon zn - clon)\<^sup>2)"

text \<open>
  The scan for the closest zone. The accumulator is the pair \<open>(min_dist, closest)\<close>;
  \<open>None\<close> is the start \<open>(inf, None)\<close>, below which every distance lies.
\<close>

fun closest_scan :: "(zone \<Rightarrow> 'd::linorder) \<Rightarrow> zone list \<Rightarrow> ('d \<times> zone) option \<Rightarrow> ('d \<times> zone) option" where
  "closest_scan d [] acc = acc"
| "closest_scan d (zn # zs) acc =
     closest_scan d zs
       (case acc of
          None \<Rightarrow> Some (d zn, zn)
        | Some (min_dist, closest) \<Rightarrow>
            if d zn < min_dist then Some (d zn, zn) else Some (min_dist, closest))"

definition resolve_click :: "real \<Rightarrow> real \<Rightarrow> zone option" where
  "resolve_click clat clon =
     (case closest_scan (zone_distance clat clon) DANGER_ZONES None of
        None \<Rightarrow> None
      | Some (min_dist, closest) \<Rightarrow> if min_dist < 0.2 then Some closest else None)"

definition map_click :: "(real \<times> real) option \<Rightarrow> session_state \<Rightarrow> session_state \<times> flow" where
  "map_click last_object_clicked st =
     (case last_object_clicked of
        None \<Rightarrow> (st, Continue)
      | Some (clat, clon) \<Rightarrow>
          (case resolve_click clat clon of
             None \<Rightarrow> (st, Continue)
           | Some closest \<Rightarrow> (select_zone (Some (zone_id closest)) st, Rerun)))"

section \<open>Spill selectors\<close>

text \<open>
  The two spill selectors (cleanup control, assistant panel) run the same code on the
  features \<open>f # fs\<close> of the selected zone, which the caller has found non-empty.
  \<open>float_str\<close> is Python's \<open>str\<close> on a float, used in the option labels; it is a
  parameter, and nothing below depends on how it renders. The value returned by
  \<open>st.selectbox\<close> is the input \<open>selected_spill_label\<close>; \<open>list.index\<close> raises ValueError
  on a value that is not in the list.
\<close>

definition spill_label :: "(real \<Rightarrow> string) \<Rightarrow> spill_props \<Rightarrow> string" where
  "spill_label float_str p =
     spill_id p @ '' | '' @ thickness_class p @ '' | '' @ float_str (area_km2 p) @ '' km'' @ sup2"

fun index_of :: "'a list \<Rightarrow> 'a \<Rightarrow> nat option" where
  "index_of [] y = None"
| "index_of (x # xs) y = (if x = y then Some 0 else map_option Suc (index_of xs y))"

definition coerce_spill :: "string list \<Rightarrow> session_state \<Rightarrow> session_state" where
  "coerce_spill spill_ids st =
     (if (case selected_spill_id st of None \<Rightarrow> True | Some s \<Rightarrow> s \<notin> set spill_ids)
      then st\<lparr>selected_spill_id := Some (spill_ids ! 0)\<rparr> else st)"

definition spill_select ::
  "(real \<Rightarrow> string) \<Rightarrow> spill_props \<Rightarrow> spill_props list \<Rightarrow> string \<Rightarrow> session_state
     \<Rightarrow> session_state \<times> (py_error + string)" where
  "spill_select float_str f fs selected_spill_label st =
     (let spill_labels = map (spill_label float_str) (f # fs);
          spill_ids = map spill_id (f # fs);
          st1 = coerce_spill spill_ids st
      in case index_of spill_labels selected_spill_label of
           None \<Rightarrow> (st1, Inl ValueError)
         | Some i \<Rightarrow> (st1\<lparr>selected_spill_id := Some (spill_ids ! i)\<rparr>, Inr (spill_ids ! i)))"

section \<open>Cleanup control\<close>

text \<open>\<open>st.button(label, disabled=disabled)\<close>: a disabled button is never pressed.\<close>

definition st_button :: "bool \<Rightarrow> bool \<Rightarrow> bool" where
  "st_button clicked disabled = (clicked \<and> \<not> disabled)"

text \<open>The button handler; \<open>sid\<close> is the selected spill id the selector has just assigned.\<close>

definition cleanup_button :: "bool \<Rightarrow> string \<Rightarrow> session_state \<Rightarrow> session_state \<times> flow" where
  "cleanup_button clicked sid st =
     (let current_status = status_get (cleanup_status st) sid;
          disabled = (current_status = ''done'')
      in if st_button clicked disabled then
           (if current_status = ''idle'' then
              (st\<lparr>cleanup_status := (cleanup_status st)(sid \<mapsto> ''cleaning'')\<rparr>, Rerun)
            else if current_status = ''cleaning'' then
              (st\<lparr>cleanup_status := (cleanup_status st)(sid \<mapsto> ''done'')\<rparr>, Rerun)
            else (st, Rerun))
         else (st, Continue))"

definition cleanup_control ::
  "(real \<Rightarrow> string) \<Rightarrow> string \<Rightarrow> bool \<Rightarrow> session_state \<Rightarrow> session_state \<times> flow" where
  "cleanup_control float_str selected_spill_label clicked st =
     (case selected_zone_id st of
        None \<Rightarrow> (st, Continue)
      | Some z \<Rightarrow>
          if z = [] then (st, Continue)
          else (case get_spill_geojson z of
                  [] \<Rightarrow> (st, Continue)
                | f # fs \<Rightarrow>
                    (case spill_select float_str f fs selected_spill_label st of
                       (st1, Inl e) \<Rightarrow> (st1, Raised e)
                     | (st1, Inr sid) \<Rightarrow> cleanup_button clicked sid st1)))"

section \<open>Assistant panel\<close>

text \<open>
  \<open>st.chat_input\<close> gives \<open>None\<close> or the submitted text; an empty text is falsy.
  \<open>next(...)\<close> over the features raises StopIteration when none matches.
\<close>

definition user_entry :: "string \<Rightarrow> chat_message" where
  "user_entry q = \<lparr>role = ''user'', content = Some q\<rparr>"

definition assistant_entry :: "string option \<Rightarrow> chat_message" where
  "assistant_entry a = \<lparr>role = ''assistant'', content = a\<rparr>"

definition chat_input ::
  "llm_client option \<Rightarrow> zone option \<Rightarrow> spill_props \<Rightarrow> string \<Rightarrow> string option \<Rightarrow> session_state
     \<Rightarrow> session_state \<times> flow" where
  "chat_input client zone_meta props history_text user_query st =
     (case user_query of
        None \<Rightarrow> (st, Continue)
      | Some q \<Rightarrow>
          if q = [] then (st, Continue)
          else
            (let st1 = st\<lparr>chat_messages := chat_messages st @ [user_entry q]\<rparr>
             in case get_ai_response client zone_meta props history_text q of
                  Inl e \<Rightarrow> (st1, Raised e)
                | Inr ai_answer \<Rightarrow>
                    (st1\<lparr>chat_messages := chat_messages st1 @ [assistant_entry ai_answer]\<rparr>,
                     Rerun)))"

definition chat_column ::
  "llm_client option \<Rightarrow> (real \<Rightarrow> string) \<Rightarrow> string \<Rightarrow> string option \<Rightarrow> session_state
     \<Rightarrow> session_state \<times> flow" where
  "chat_column client float_str selected_spill_label user_query st =
     (case selected_zone_id st of
        None \<Rightarrow> (st, Continue)
      | Some z \<Rightarrow>
          if z = [] then (st, Continue)
          else (case get_spill_geojson z of
                  [] \<Rightarrow> (st, Continue)
                | f # fs \<Rightarrow>
                    (case spill_select float_str f fs selected_spill_label st of
                       (st1, Inl e) \<Rightarrow> (st1, Raised e)
                     | (st1, Inr sid) \<Rightarrow>
                         (case find (\<lambda>g. spill_id g = sid) (f # fs) of
                            None \<Rightarrow> (st1, Raised StopIteration)
                          | Some props \<Rightarrow>
                              chat_input client (get_zone_meta z) props
                                (get_history_summary z) user_query st1))))"

section \<open>One run of the script\<close>

text \<open>What the widgets hand to one run of the script.\<close>

record ui_inputs =
  selected_zone_option :: string
  last_object_clicked :: "(real \<times> real) option"
  cleanup_spill_select :: string
  cleanup_clicked :: bool
  assistant_spill_select :: string
  user_query :: "string option"

definition and_then ::
  "session_state \<times> flow \<Rightarrow> (session_state \<Rightarrow> session_state \<times> flow) \<Rightarrow> session_state \<times> flow" where
  "and_then r block = (if snd r = Continue then block (fst r) else r)"

definition script_run ::
  "llm_client option \<Rightarrow> (real \<Rightarrow> string) \<Rightarrow> ui_inputs \<Rightarrow> session_state \<Rightarrow> session_state \<times> flow" where
  "script_run client float_str inp st =
     and_then
       (and_then
          (and_then (sidebar_zone_selection (selected_zone_option inp) st)
             (map_click (last_object_clicked inp)))
          (cleanup_control float_str (cleanup_spill_select inp) (cleanup_clicked inp)))
       (chat_column client float_str (assistant_spill_select inp) (user_query inp))"

text \<open>The session states a session can be in between runs.\<close>

inductive reachable :: "session_state \<Rightarrow> bool" where
  reachable_init: "reachable initial_state"
| reachable_run: "reachable st \<Longrightarrow> reachable (fst (script_run client float_str inp st))"

section \<open>Widget options and sample sessions\<close>

text \<open>The option string the sidebar offers for a zone id, \<open>"None"\<close> for no zone.\<close>

definition option_of_zone :: "string option \<Rightarrow> string" where
  "option_of_zone z = (case z of None \<Rightarrow> ''None'' | Some zid \<Rightarrow> zid)"

text \<open>A session with zone Z1, spill S1 and one chat turn.\<close>

definition zone_Z1_spill_S1 :: session_state where
  "zone_Z1_spill_S1 =
     initial_state\<lparr>selected_zone_id := Some ''Z1'', selected_spill_id := Some ''S1'',
       chat_messages := [user_entry ''risk?'', assistant_entry (Some ''HIGH'')]\<rparr>"

text \<open>
  Three completion services: one whose call raises, one that answers with a text, one
  whose reply has no text content.
\<close>

definition failing_service :: llm_client where
  "failing_service req = Raises ''Connection error.''"

definition answering_service :: llm_client where
  "answering_service req = Completion [Some ''Risk level: HIGH'']"

definition null_content_service :: llm_client where
  "null_content_service req = Completion [None]"

text \<open>The properties of spill S1, and the session right after zone Z1 was selected.\<close>

definition props_S1 :: spill_props where
  "props_S1 = \<lparr>spill_id = ''S1'', area_km2 = 2.5, oil_type = ''crude'',
                thickness_class = ''thick'', confidence = 0.92\<rparr>"

definition zone_Z1_selected :: session_state where
  "zone_Z1_selected = initial_state\<lparr>selected_zone_id := Some ''Z1''\<rparr>"

text \<open>
  A run in which the cleanup button is pressed for spill S1 of zone Z1, and the sessions
  after one and after two such runs.
\<close>

definition press_cleanup_S1 :: ui_inputs where
  "press_cleanup_S1 =
     \<lparr>selected_zone_option = ''Z1'', last_object_clicked = None,
      cleanup_spill_select = spill_label fmt_1f props_S1, cleanup_clicked = True,
      assistant_spill_select = spill_label fmt_1f props_S1, user_query = None\<rparr>"

definition after_first_press :: session_state where
  "after_first_press = fst (script_run None fmt_1f press_cleanup_S1 zone_Z1_selected)"

definition after_second_press :: session_state where
  "after_second_press = fst (script_run None fmt_1f press_cleanup_S1 after_first_press)"

text \<open>The moves a cleanup status may make in one run: none, or one step forward.\<close>

definition status_step :: "string \<Rightarrow> string \<Rightarrow> bool" where
  "status_step a b =
     (b = a \<or> a = ''idle'' \<and> b = ''cleaning'' \<or> a = ''cleaning'' \<and> b = ''done'')"

text \<open>
  The session invariant: a selected spill belongs to the spill set of the selected zone.
\<close>

definition spill_in_selected_zone :: "session_state \<Rightarrow> bool" where
  "spill_in_selected_zone st =
     (case selected_spill_id st of
        None \<Rightarrow> True
      | Some sid \<Rightarrow>
          (case selected_zone_id st of
             None \<Rightarrow> False
           | Some z \<Rightarrow> sid \<in> set (map spill_id (get_spill_geojson z))))"

text \<open>The guard of both spill selectors: a zone is selected and it has spills.\<close>

definition zone_with_spills :: "session_state \<Rightarrow> bool" where
  "zone_with_spills st =
     (case selected_zone_id st of
        None \<Rightarrow> False
      | Some z \<Rightarrow> z \<noteq> [] \<and> get_spill_geojson z \<noteq> [])"





section \<open>Properties of the context summarizer\<close>

lemma str_nat_digit: "n < 10 \<Longrightarrow> str_nat n = [digit_char n]"
  by (simp add: str_nat.simps)

lemma max_by_key_mem: "max_by_key k b xs \<in> set (b # xs)"
  by (induction xs arbitrary: b) auto

lemma max_by_key_ge_best: "k b \<le> k (max_by_key k b xs)"
proof (induction xs arbitrary: b)
  case Nil
  show ?case by simp
next
  case (Cons x xs)
  show ?case
  proof (cases "k b < k x")
    case True
    have "k x \<le> k (max_by_key k x xs)" by (rule Cons.IH)
    with True show ?thesis by simp
  next
    case False
    with Cons.IH [of b] show ?thesis by simp
  qed
qed

lemma max_by_key_upper: "x \<in> set (b # xs) \<Longrightarrow> k x \<le> k (max_by_key k b xs)"
proof (induction xs arbitrary: b)
  case Nil
  then show ?case by simp
next
  case (Cons y ys)
  let ?b' = "if k b < k y then y else b"
  have step: "max_by_key k b (y # ys) = max_by_key k ?b' ys" by simp
  have ge: "k ?b' \<le> k (max_by_key k ?b' ys)" by (rule max_by_key_ge_best)
  from Cons.prems consider "x = b" | "x = y" | "x \<in> set ys" by auto
  then show ?case
  proof cases
    case 1
    have "k b \<le> k ?b'" by auto
    with ge 1 step show ?thesis by (metis order_trans)
  next
    case 2
    have "k y \<le> k ?b'" by auto
    with ge 2 step show ?thesis by (metis order_trans)
  next
    case 3
    then have "x \<in> set (?b' # ys)" by simp
    from Cons.IH [OF this] step show ?thesis by simp
  qed
qed

lemma max_by_key_id_Max: "max_by_key id b xs = Max (set (b # xs))"
proof -
  have m: "max_by_key id b xs \<in> set (b # xs)" by (rule max_by_key_mem)
  have u: "\<forall>x\<in>set (b # xs). x \<le> max_by_key id b xs"
    using max_by_key_upper [of _ b xs id] by simp
  show ?thesis using m u by (intro Max_eqI [symmetric]) auto
qed

lemma history_summary_Z1:
  "get_history_summary ''Z1'' =
     ''This zone has 3 historical spills, total affected area ~5.1 km'' @ [CHR 0xC2, CHR 0xB2] @
     ''. Largest historical spill ~2.2 km'' @ [CHR 0xC2, CHR 0xB2] @
     ''. Most recent spill on 2024-01-03 with area ~1.1 km'' @ [CHR 0xC2, CHR 0xB2] @ ''.''"
  by (simp add: get_history_summary_def history_events_def HISTORY_DATA_def
      history_sentence_def fmt_1f_def round_half_even_def Let_def str_nat_digit
      digit_char_def sup2_def)

lemma history_summary_Z2:
  "get_history_summary ''Z2'' =
     ''This zone has 1 historical spills, total affected area ~3.0 km'' @ [CHR 0xC2, CHR 0xB2] @
     ''. Largest historical spill ~3.0 km'' @ [CHR 0xC2, CHR 0xB2] @
     ''. Most recent spill on 2022-11-02 with area ~3.0 km'' @ [CHR 0xC2, CHR 0xB2] @ ''.''"
  by (simp add: get_history_summary_def history_events_def HISTORY_DATA_def
      history_sentence_def fmt_1f_def round_half_even_def Let_def str_nat_digit
      digit_char_def sup2_def)

lemma history_summary_Z3:
  "get_history_summary ''Z3'' =
     ''This zone has 2 historical spills, total affected area ~2.1 km'' @ [CHR 0xC2, CHR 0xB2] @
     ''. Largest historical spill ~1.2 km'' @ [CHR 0xC2, CHR 0xB2] @
     ''. Most recent spill on 2023-09-10 with area ~1.2 km'' @ [CHR 0xC2, CHR 0xB2] @ ''.''"
  by (simp add: get_history_summary_def history_events_def HISTORY_DATA_def
      history_sentence_def fmt_1f_def round_half_even_def Let_def str_nat_digit
      digit_char_def sup2_def)

lemma history_summary_other:
  "z \<noteq> ''Z1'' \<Longrightarrow> z \<noteq> ''Z2'' \<Longrightarrow> z \<noteq> ''Z3'' \<Longrightarrow>
     get_history_summary z = ''No historical spills recorded for this zone.''"
  by (simp add: get_history_summary_def history_events_def HISTORY_DATA_def no_history_text_def)

text \<open>
  Claim C6. The history summary is a function of the zone id alone. For a zone without
  historical events it is the fixed no-history sentence; otherwise it is the one sentence
  that reports, in this order, the number of events, the sum of their areas, the largest
  area, and the date and area of the event with the greatest date string, each area
  printed with one decimal place. The text is given for every zone id: for Z1 it reports
  3 events, 5.1 in total, 2.2 at most, and the latest event on 2024-01-03 with area 1.1.
\<close>

theorem history_summary_spec:
  "(history_events z = [] \<longrightarrow>
      get_history_summary z = ''No historical spills recorded for this zone.'') \<and>
   (history_events z \<noteq> [] \<longrightarrow>
      (\<exists>latest\<in>set (history_events z).
         (\<forall>e\<in>set (history_events z). date e \<le> date latest) \<and>
         get_history_summary z =
           ''This zone has '' @ str_nat (length (history_events z)) @
           '' historical spills, total affected area ~'' @
           fmt_1f (sum_list (map hist_area_km2 (history_events z))) @
           '' km'' @ [CHR 0xC2, CHR 0xB2] @ ''. Largest historical spill ~'' @
           fmt_1f (Max (set (map hist_area_km2 (history_events z)))) @
           '' km'' @ [CHR 0xC2, CHR 0xB2] @ ''. Most recent spill on '' @ date latest @
           '' with area ~'' @ fmt_1f (hist_area_km2 latest) @
           '' km'' @ [CHR 0xC2, CHR 0xB2] @ ''.'')) \<and>
   get_history_summary z =
     (if z = ''Z1'' then
        ''This zone has 3 historical spills, total affected area ~5.1 km'' @
        [CHR 0xC2, CHR 0xB2] @ ''. Largest historical spill ~2.2 km'' @
        [CHR 0xC2, CHR 0xB2] @ ''. Most recent spill on 2024-01-03 with area ~1.1 km'' @
        [CHR 0xC2, CHR 0xB2] @ ''.''
      else if z = ''Z2'' then
        ''This zone has 1 historical spills, total affected area ~3.0 km'' @
        [CHR 0xC2, CHR 0xB2] @ ''. Largest historical spill ~3.0 km'' @
        [CHR 0xC2, CHR 0xB2] @ ''. Most recent spill on 2022-11-02 with area ~3.0 km'' @
        [CHR 0xC2, CHR 0xB2] @ ''.''
      else if z = ''Z3'' then
        ''This zone has 2 historical spills, total affected area ~2.1 km'' @
        [CHR 0xC2, CHR 0xB2] @ ''. Largest historical spill ~1.2 km'' @
        [CHR 0xC2, CHR 0xB2] @ ''. Most recent spill on 2023-09-10 with area ~1.2 km'' @
        [CHR 0xC2, CHR 0xB2] @ ''.''
      else ''No historical spills recorded for this zone.'')"
proof (intro conjI impI)
  assume "history_events z = []"
  then show "get_history_summary z = ''No historical spills recorded for this zone.''"
    by (simp add: get_history_summary_def no_history_text_def)
next
  assume ne: "history_events z \<noteq> []"
  then obtain e es where es: "history_events z = e # es"
    by (cases "history_events z") auto
  let ?latest = "max_by_key date e es"
  have mem: "?latest \<in> set (history_events z)"
    using max_by_key_mem [of date e es] es by simp
  have upper: "\<forall>x\<in>set (history_events z). date x \<le> date ?latest"
    using max_by_key_upper [of _ e es date] es by simp
  have mx: "max_by_key id (hist_area_km2 e) (map hist_area_km2 es) =
      Max (set (map hist_area_km2 (history_events z)))"
    using max_by_key_id_Max [of "hist_area_km2 e" "map hist_area_km2 es"] es by simp
  have "get_history_summary z =
      history_sentence (length (history_events z))
        (sum_list (map hist_area_km2 (history_events z)))
        (Max (set (map hist_area_km2 (history_events z)))) ?latest"
    using es mx by (simp add: get_history_summary_def)
  then have "get_history_summary z =
           ''This zone has '' @ str_nat (length (history_events z)) @
           '' historical spills, total affected area ~'' @
           fmt_1f (sum_list (map hist_area_km2 (history_events z))) @
           '' km'' @ [CHR 0xC2, CHR 0xB2] @ ''. Largest historical spill ~'' @
           fmt_1f (Max (set (map hist_area_km2 (history_events z)))) @
           '' km'' @ [CHR 0xC2, CHR 0xB2] @ ''. Most recent spill on '' @ date ?latest @
           '' with area ~'' @ fmt_1f (hist_area_km2 ?latest) @
           '' km'' @ [CHR 0xC2, CHR 0xB2] @ ''.''"
    by (simp add: history_sentence_def sup2_def)
  with mem upper show "\<exists>latest\<in>set (history_events z).
         (\<forall>e\<in>set (history_events z). date e \<le> date latest) \<and>
         get_history_summary z =
           ''This zone has '' @ str_nat (length (history_events z)) @
           '' historical spills, total affected area ~'' @
           fmt_1f (sum_list (map hist_area_km2 (history_events z))) @
           '' km'' @ [CHR 0xC2, CHR 0xB2] @ ''. Largest historical spill ~'' @
           fmt_1f (Max (set (map hist_area_km2 (history_events z)))) @
           '' km'' @ [CHR 0xC2, CHR 0xB2] @ ''. Most recent spill on '' @ date latest @
           '' with area ~'' @ fmt_1f (hist_area_km2 latest) @
           '' km'' @ [CHR 0xC2, CHR 0xB2] @ ''.''"
    by blast
next
  consider "z = ''Z1''" | "z = ''Z2''" | "z = ''Z3''"
    | "z \<noteq> ''Z1''" "z \<noteq> ''Z2''" "z \<noteq> ''Z3''"
    by blast
  then show "get_history_summary z =
     (if z = ''Z1'' then
        ''This zone has 3 historical spills, total affected area ~5.1 km'' @
        [CHR 0xC2, CHR 0xB2] @ ''. Largest historical spill ~2.2 km'' @
        [CHR 0xC2, CHR 0xB2] @ ''. Most recent spill on 2024-01-03 with area ~1.1 km'' @
        [CHR 0xC2, CHR 0xB2] @ ''.''
      else if z = ''Z2'' then
        ''This zone has 1 historical spills, total affected area ~3.0 km'' @
        [CHR 0xC2, CHR 0xB2] @ ''. Largest historical spill ~3.0 km'' @
        [CHR 0xC2, CHR 0xB2] @ ''. Most recent spill on 2022-11-02 with area ~3.0 km'' @
        [CHR 0xC2, CHR 0xB2] @ ''.''
      else if z = ''Z3'' then
        ''This zone has 2 historical spills, total affected area ~2.1 km'' @
        [CHR 0xC2, CHR 0xB2] @ ''. Largest historical spill ~1.2 km'' @
        [CHR 0xC2, CHR 0xB2] @ ''. Most recent spill on 2023-09-10 with area ~1.2 km'' @
        [CHR 0xC2, CHR 0xB2] @ ''.''
      else ''No historical spills recorded for this zone.'')"
  proof cases
    case 1
    then show ?thesis by (simp add: history_summary_Z1)
  next
    case 2
    then show ?thesis by (simp add: history_summary_Z2)
  next
    case 3
    then show ?thesis by (simp add: history_summary_Z3)
  next
    case 4
    then show ?thesis by (simp add: history_summary_other)
  qed
qed

theorem history_summary_spec_witness:
  "history_events ''Z9'' = [] \<and>
   get_history_summary ''Z9'' = ''No historical spills recorded for this zone.'' \<and>
   history_events ''Z2'' \<noteq> [] \<and>
   (\<exists>latest\<in>set (history_events ''Z2'').
      (\<forall>e\<in>set (history_events ''Z2''). date e \<le> date latest) \<and>
      get_history_summary ''Z2'' =
        ''This zone has '' @ str_nat (length (history_events ''Z2'')) @
        '' historical spills, total affected area ~'' @
        fmt_1f (sum_list (map hist_area_km2 (history_events ''Z2''))) @
        '' km'' @ [CHR 0xC2, CHR 0xB2] @ ''. Largest historical spill ~'' @
        fmt_1f (Max (set (map hist_area_km2 (history_events ''Z2'')))) @
        '' km'' @ [CHR 0xC2, CHR 0xB2] @ ''. Most recent spill on '' @ date latest @
        '' with area ~'' @ fmt_1f (hist_area_km2 latest) @
        '' km'' @ [CHR 0xC2, CHR 0xB2] @ ''.'') \<and>
   get_history_summary ''Z3'' =
     ''This zone has 2 historical spills, total affected area ~2.1 km'' @
     [CHR 0xC2, CHR 0xB2] @ ''. Largest historical spill ~1.2 km'' @
     [CHR 0xC2, CHR 0xB2] @ ''. Most recent spill on 2023-09-10 with area ~1.2 km'' @
     [CHR 0xC2, CHR 0xB2] @ ''.''"
proof -
  have a: "history_events ''Z9'' = []"
    by (simp add: history_events_def HISTORY_DATA_def)
  have b: "history_events ''Z2'' \<noteq> []"
    by (simp add: history_events_def HISTORY_DATA_def)
  note z9 = history_summary_spec [of "''Z9''", THEN conjunct1, rule_format, OF a]
  note z2 = history_summary_spec [of "''Z2''", THEN conjunct2, THEN conjunct1,
      rule_format, OF b]
  have "get_history_summary ''Z3'' =
     (if ''Z3'' = ''Z1'' then
        ''This zone has 3 historical spills, total affected area ~5.1 km'' @
        [CHR 0xC2, CHR 0xB2] @ ''. Largest historical spill ~2.2 km'' @
        [CHR 0xC2, CHR 0xB2] @ ''. Most recent spill on 2024-01-03 with area ~1.1 km'' @
        [CHR 0xC2, CHR 0xB2] @ ''.''
      else if ''Z3'' = ''Z2'' then
        ''This zone has 1 historical spills, total affected area ~3.0 km'' @
        [CHR 0xC2, CHR 0xB2] @ ''. Largest historical spill ~3.0 km'' @
        [CHR 0xC2, CHR 0xB2] @ ''. Most recent spill on 2022-11-02 with area ~3.0 km'' @
        [CHR 0xC2, CHR 0xB2] @ ''.''
      else if ''Z3'' = ''Z3'' then
        ''This zone has 2 historical spills, total affected area ~2.1 km'' @
        [CHR 0xC2, CHR 0xB2] @ ''. Largest historical spill ~1.2 km'' @
        [CHR 0xC2, CHR 0xB2] @ ''. Most recent spill on 2023-09-10 with area ~1.2 km'' @
        [CHR 0xC2, CHR 0xB2] @ ''.''
      else ''No historical spills recorded for this zone.'')"
    by (rule history_summary_spec [of "''Z3''", THEN conjunct2, THEN conjunct2])
  then have z3: "get_history_summary ''Z3'' =
     ''This zone has 2 historical spills, total affected area ~2.1 km'' @
     [CHR 0xC2, CHR 0xB2] @ ''. Largest historical spill ~1.2 km'' @
     [CHR 0xC2, CHR 0xB2] @ ''. Most recent spill on 2023-09-10 with area ~1.2 km'' @
     [CHR 0xC2, CHR 0xB2] @ ''.''"
    by simp
  show ?thesis by (intro conjI) (rule a z9 b z2 z3)+
qed

section \<open>Zone selection and map clicks\<close>

text \<open>
  The scan returns the first zone of least distance, whatever linear order the distance
  values carry.
\<close>

lemma closest_scan_snoc:
  "closest_scan d (zs @ [z]) acc = closest_scan d [z] (closest_scan d zs acc)"
  by (induction zs arbitrary: acc) simp_all

lemma closest_scan_first_min:
  "zs \<noteq> [] \<Longrightarrow>
     \<exists>i<length zs. closest_scan d zs None = Some (d (zs ! i), zs ! i) \<and>
        (\<forall>j<length zs. d (zs ! i) \<le> d (zs ! j)) \<and> (\<forall>j<i. d (zs ! i) < d (zs ! j))"
proof (induction zs rule: rev_induct)
  case Nil
  then show ?case by simp
next
  case (snoc z zs)
  show ?case
  proof (cases "zs = []")
    case True
    then show ?thesis by simp
  next
    case False
    from snoc.IH [OF False] obtain i where i: "i < length zs"
      and res: "closest_scan d zs None = Some (d (zs ! i), zs ! i)"
      and low: "\<forall>j<length zs. d (zs ! i) \<le> d (zs ! j)"
      and first: "\<forall>j<i. d (zs ! i) < d (zs ! j)"
      by blast
    show ?thesis
    proof (cases "d z < d (zs ! i)")
      case True
      have r: "closest_scan d (zs @ [z]) None = Some (d z, z)"
        using res True by (simp add: closest_scan_snoc)
      have a: "\<forall>j<length (zs @ [z]). d ((zs @ [z]) ! length zs) \<le> d ((zs @ [z]) ! j)"
      proof (intro allI impI)
        fix j assume "j < length (zs @ [z])"
        then consider "j < length zs" | "j = length zs" by fastforce
        then show "d ((zs @ [z]) ! length zs) \<le> d ((zs @ [z]) ! j)"
        proof cases
          case 1
          with low have "d (zs ! i) \<le> d (zs ! j)" by blast
          with True 1 show ?thesis by (simp add: nth_append)
        next
          case 2
          then show ?thesis by simp
        qed
      qed
      have b: "\<forall>j<length zs. d ((zs @ [z]) ! length zs) < d ((zs @ [z]) ! j)"
      proof (intro allI impI)
        fix j assume j: "j < length zs"
        with low have "d (zs ! i) \<le> d (zs ! j)" by blast
        with True j show "d ((zs @ [z]) ! length zs) < d ((zs @ [z]) ! j)"
          by (simp add: nth_append)
      qed
      have "length zs < length (zs @ [z])" by simp
      moreover have "closest_scan d (zs @ [z]) None =
          Some (d ((zs @ [z]) ! length zs), (zs @ [z]) ! length zs)"
        using r by simp
      ultimately show ?thesis using a b by blast
    next
      case False
      have r: "closest_scan d (zs @ [z]) None = Some (d (zs ! i), zs ! i)"
        using res False by (simp add: closest_scan_snoc)
      have nth_i: "(zs @ [z]) ! i = zs ! i" using i by (simp add: nth_append)
      have a: "\<forall>j<length (zs @ [z]). d ((zs @ [z]) ! i) \<le> d ((zs @ [z]) ! j)"
      proof (intro allI impI)
        fix j assume "j < length (zs @ [z])"
        then consider "j < length zs" | "j = length zs" by fastforce
        then show "d ((zs @ [z]) ! i) \<le> d ((zs @ [z]) ! j)"
        proof cases
          case 1
          with low have "d (zs ! i) \<le> d (zs ! j)" by blast
          with 1 nth_i show ?thesis by (simp add: nth_append)
        next
          case 2
          with False nth_i show ?thesis by simp
        qed
      qed
      have b: "\<forall>j<i. d ((zs @ [z]) ! i) < d ((zs @ [z]) ! j)"
      proof (intro allI impI)
        fix j assume j: "j < i"
        with first have "d (zs ! i) < d (zs ! j)" by blast
        moreover have "(zs @ [z]) ! j = zs ! j" using j i by (simp add: nth_append)
        ultimately show "d ((zs @ [z]) ! i) < d ((zs @ [z]) ! j)" using nth_i by simp
      qed
      have "i < length (zs @ [z])" using i by simp
      moreover have "closest_scan d (zs @ [z]) None =
          Some (d ((zs @ [z]) ! i), (zs @ [z]) ! i)"
        using r nth_i by simp
      ultimately show ?thesis using a b by blast
    qed
  qed
qed

lemma new_zone_id_of_option:
  "z = None \<or> z \<in> Some ` zone_id ` set DANGER_ZONES \<Longrightarrow> new_zone_id_of (option_of_zone z) = z"
  by (auto simp: new_zone_id_of_def option_of_zone_def DANGER_ZONES_def)

lemma option_of_zone_offered:
  "z = None \<or> z \<in> Some ` zone_id ` set DANGER_ZONES \<Longrightarrow> option_of_zone z \<in> set zone_options"
  by (auto simp: option_of_zone_def zone_options_def)

lemma resolve_click_centre:
  "zn \<in> set DANGER_ZONES \<Longrightarrow> resolve_click (lat zn) (lon zn) = Some zn"
  by (auto simp: resolve_click_def DANGER_ZONES_def zone_distance_def power2_eq_square)

text \<open>
  Claim C1. Selecting a zone id that differs from the current one, a known zone or none,
  in the sidebar sets the selected zone to it, resets the selected spill to none and
  empties the chat transcript; a map click that resolves to a zone does the same, and
  every known zone is resolved by a click on its centre.
\<close>

theorem select_zone_resets:
  "((z = None \<or> z \<in> Some ` zone_id ` set DANGER_ZONES) \<longrightarrow> z \<noteq> selected_zone_id st \<longrightarrow>
      option_of_zone z \<in> set zone_options \<and>
      sidebar_zone_selection (option_of_zone z) st =
        (st\<lparr>selected_zone_id := z, selected_spill_id := None, chat_messages := []\<rparr>, Rerun)) \<and>
   (\<forall>zn. resolve_click clat clon = Some zn \<longrightarrow>
      map_click (Some (clat, clon)) st =
        (st\<lparr>selected_zone_id := Some (zone_id zn), selected_spill_id := None,
            chat_messages := []\<rparr>, Rerun)) \<and>
   (\<forall>zn\<in>set DANGER_ZONES.
      map_click (Some (lat zn, lon zn)) st =
        (st\<lparr>selected_zone_id := Some (zone_id zn), selected_spill_id := None,
            chat_messages := []\<rparr>, Rerun))"
proof (intro conjI impI allI ballI)
  assume "z = None \<or> z \<in> Some ` zone_id ` set DANGER_ZONES"
  then show "option_of_zone z \<in> set zone_options" by (rule option_of_zone_offered)
next
  assume known: "z = None \<or> z \<in> Some ` zone_id ` set DANGER_ZONES"
    and diff: "z \<noteq> selected_zone_id st"
  from known have "new_zone_id_of (option_of_zone z) = z" by (rule new_zone_id_of_option)
  with diff show "sidebar_zone_selection (option_of_zone z) st =
        (st\<lparr>selected_zone_id := z, selected_spill_id := None, chat_messages := []\<rparr>, Rerun)"
    by (simp add: sidebar_zone_selection_def select_zone_def)
next
  fix zn assume "resolve_click clat clon = Some zn"
  then show "map_click (Some (clat, clon)) st =
        (st\<lparr>selected_zone_id := Some (zone_id zn), selected_spill_id := None,
            chat_messages := []\<rparr>, Rerun)"
    by (simp add: map_click_def select_zone_def)
next
  fix zn assume "zn \<in> set DANGER_ZONES"
  then have "resolve_click (lat zn) (lon zn) = Some zn" by (rule resolve_click_centre)
  then show "map_click (Some (lat zn, lon zn)) st =
        (st\<lparr>selected_zone_id := Some (zone_id zn), selected_spill_id := None,
            chat_messages := []\<rparr>, Rerun)"
    by (simp add: map_click_def select_zone_def)
qed

theorem select_zone_resets_witness:
  "sidebar_zone_selection ''Z2'' zone_Z1_spill_S1 =
     (zone_Z1_spill_S1\<lparr>selected_zone_id := Some ''Z2'', selected_spill_id := None,
        chat_messages := []\<rparr>, Rerun) \<and>
   sidebar_zone_selection ''None'' zone_Z1_spill_S1 =
     (zone_Z1_spill_S1\<lparr>selected_zone_id := None, selected_spill_id := None,
        chat_messages := []\<rparr>, Rerun) \<and>
   map_click (Some (39.9, 50)) zone_Z1_spill_S1 =
     (zone_Z1_spill_S1\<lparr>selected_zone_id := Some ''Z3'', selected_spill_id := None,
        chat_messages := []\<rparr>, Rerun)"
proof -
  have sel: "selected_zone_id zone_Z1_spill_S1 = Some ''Z1''"
    by (simp add: zone_Z1_spill_S1_def)
  have a: "Some ''Z2'' \<in> Some ` zone_id ` set DANGER_ZONES"
    by (simp add: DANGER_ZONES_def)
  have z3: "\<lparr>zone_id = ''Z3'', lat = 39.90, lon = 50.00, scene_id = ''SCENARIO_001''\<rparr>
      \<in> set DANGER_ZONES"
    by (simp add: DANGER_ZONES_def)
  from select_zone_resets [of "Some ''Z2''" zone_Z1_spill_S1] a sel
  have r1: "sidebar_zone_selection ''Z2'' zone_Z1_spill_S1 =
     (zone_Z1_spill_S1\<lparr>selected_zone_id := Some ''Z2'', selected_spill_id := None,
        chat_messages := []\<rparr>, Rerun)"
    by (simp add: option_of_zone_def)
  from select_zone_resets [of None zone_Z1_spill_S1] sel
  have r2: "sidebar_zone_selection ''None'' zone_Z1_spill_S1 =
     (zone_Z1_spill_S1\<lparr>selected_zone_id := None, selected_spill_id := None,
        chat_messages := []\<rparr>, Rerun)"
    by (simp add: option_of_zone_def)
  from select_zone_resets [of None zone_Z1_spill_S1 0 0] z3
  have r3: "map_click (Some (39.9, 50)) zone_Z1_spill_S1 =
     (zone_Z1_spill_S1\<lparr>selected_zone_id := Some ''Z3'', selected_spill_id := None,
        chat_messages := []\<rparr>, Rerun)"
    by fastforce
  show ?thesis using r1 r2 r3 by simp
qed

section \<open>Assistant gateway and chat turns\<close>

lemma get_spill_geojson_single:
  "get_spill_geojson z = f # fs \<Longrightarrow> fs = [] \<and> get_zone_meta z \<noteq> None"
  by (auto simp: get_spill_geojson_def spill_data_def get_zone_meta_def DANGER_ZONES_def
      split: if_splits)

lemma get_ai_response_answers:
  "\<exists>answer. get_ai_response client (Some zm) props history_text q = Inr answer"
  by (simp add: get_ai_response_def split: option.split llm_outcome.split list.split)

lemma coerce_spill_update:
  "(coerce_spill ids st)\<lparr>selected_spill_id := x\<rparr> = st\<lparr>selected_spill_id := x\<rparr>"
  by (simp add: coerce_spill_def)

lemma coerce_spill_chat: "chat_messages (coerce_spill ids st) = chat_messages st"
  by (simp add: coerce_spill_def)

lemma spill_select_single:
  "spill_select float_str f [] (spill_label float_str f) st =
     (st\<lparr>selected_spill_id := Some (spill_id f)\<rparr>, Inr (spill_id f))"
  by (simp add: spill_select_def Let_def coerce_spill_update)

lemma spill_select_chat:
  "chat_messages (fst (spill_select float_str f fs label st)) = chat_messages st"
  by (simp add: spill_select_def Let_def coerce_spill_chat split: option.split)

lemma get_ai_response_fallbacks:
  "get_ai_response None zone_meta props history_text q =
     Inr (Some ([CHR 0xE2, CHR 0x9A, CHR 0xA0, CHR 0xEF, CHR 0xB8, CHR 0x8F] @
       '' LLM API key not configured. Set OPENAI_API_KEY in your environment to enable the assistant.''))"
  "create (llm_request_of zm props history_text q) = Raises e \<Longrightarrow>
     get_ai_response (Some create) (Some zm) props history_text q =
       Inr (Some ([CHR 0xE2, CHR 0x9A, CHR 0xA0, CHR 0xEF, CHR 0xB8, CHR 0x8F] @
         '' Error calling LLM API: '' @ e))"
  "create (llm_request_of zm props history_text q) = Completion [] \<Longrightarrow>
     get_ai_response (Some create) (Some zm) props history_text q =
       Inr (Some ([CHR 0xE2, CHR 0x9A, CHR 0xA0, CHR 0xEF, CHR 0xB8, CHR 0x8F] @
         '' Error calling LLM API: list index out of range''))"
  "create (llm_request_of zm props history_text q) = Completion (c # cs) \<Longrightarrow>
     get_ai_response (Some create) (Some zm) props history_text q = Inr c"
  by (simp_all add: get_ai_response_def no_key_text_def api_error_text_def warning_sign_def)

lemma zone_meta_Z1:
  "get_zone_meta ''Z1'' =
     Some \<lparr>zone_id = ''Z1'', lat = 40.20, lon = 49.80, scene_id = ''SCENARIO_001''\<rparr>"
  by (simp add: get_zone_meta_def DANGER_ZONES_def)

text \<open>
  Claim C7. The claim asks for a string result of every call. The gateway gives one
  without a credential and when the service call raises, but a completion whose first
  choice has no text content is passed through: the gateway returns Python's \<open>None\<close>,
  and the chat turn stores it as the content of the assistant entry.
\<close>

theorem gateway_returns_none_for_null_content:
  "get_ai_response (Some null_content_service) (get_zone_meta ''Z1'') props_S1
     (get_history_summary ''Z1'') ''What is the risk?'' = Inr None \<and>
   chat_column (Some null_content_service) fmt_1f (spill_label fmt_1f props_S1)
     (Some ''What is the risk?'') zone_Z1_selected =
     (zone_Z1_selected\<lparr>selected_spill_id := Some ''S1'',
        chat_messages :=
          [\<lparr>role = ''user'', content = Some ''What is the risk?''\<rparr>,
           \<lparr>role = ''assistant'', content = None\<rparr>]\<rparr>, Rerun)"
proof -
  have a: "get_ai_response (Some null_content_service) (get_zone_meta ''Z1'') props_S1
     (get_history_summary ''Z1'') ''What is the risk?'' = Inr None"
    by (simp add: zone_meta_Z1 get_ai_response_def null_content_service_def)
  have f: "get_spill_geojson ''Z1'' = [props_S1]"
    by (simp add: get_spill_geojson_def spill_data_def props_S1_def)
  have s: "spill_id props_S1 = ''S1''" by (simp add: props_S1_def)
  have "chat_column (Some null_content_service) fmt_1f (spill_label fmt_1f props_S1)
     (Some ''What is the risk?'') zone_Z1_selected =
     (zone_Z1_selected\<lparr>selected_spill_id := Some ''S1'',
        chat_messages :=
          [\<lparr>role = ''user'', content = Some ''What is the risk?''\<rparr>,
           \<lparr>role = ''assistant'', content = None\<rparr>]\<rparr>, Rerun)"
    using a
    by (simp add: chat_column_def zone_Z1_selected_def initial_state_def f spill_select_single s
        chat_input_def Let_def user_entry_def assistant_entry_def)
  with a show ?thesis by simp
qed

lemma chat_input_transcript:
  "chat_messages (fst (chat_input client (Some zm) props h uq st)) = chat_messages st \<or>
   (\<exists>q a. uq = Some q \<and>
      chat_messages (fst (chat_input client (Some zm) props h uq st)) =
        chat_messages st @ [\<lparr>role = ''user'', content = Some q\<rparr>, \<lparr>role = ''assistant'', content = a\<rparr>])"
proof (cases uq)
  case None
  then show ?thesis by (simp add: chat_input_def)
next
  case (Some q)
  from get_ai_response_answers [of client zm props h q]
  obtain a where "get_ai_response client (Some zm) props h q = Inr a" ..
  with Some show ?thesis
    by (simp add: chat_input_def Let_def user_entry_def assistant_entry_def)
qed

lemma chat_column_transcript:
  "chat_messages (fst (chat_column client float_str label uq st)) = chat_messages st \<or>
   (\<exists>q a. uq = Some q \<and>
      chat_messages (fst (chat_column client float_str label uq st)) =
        chat_messages st @ [\<lparr>role = ''user'', content = Some q\<rparr>, \<lparr>role = ''assistant'', content = a\<rparr>])"
proof (cases "selected_zone_id st")
  case None
  then show ?thesis by (simp add: chat_column_def)
next
  case (Some z)
  show ?thesis
  proof (cases "z = [] \<or> get_spill_geojson z = []")
    case True
    with Some show ?thesis by (auto simp: chat_column_def)
  next
    case False
    then obtain f fs where ffs: "get_spill_geojson z = f # fs" and z: "z \<noteq> []"
      by (cases "get_spill_geojson z") auto
    then have "get_zone_meta z \<noteq> None" by (simp add: get_spill_geojson_single)
    then obtain zm where zm: "get_zone_meta z = Some zm" by auto
    obtain st1 r where sel: "spill_select float_str f fs label st = (st1, r)"
      by (cases "spill_select float_str f fs label st") auto
    have st1: "chat_messages st1 = chat_messages st"
      using spill_select_chat [of float_str f fs label st] sel by simp
    show ?thesis
    proof (cases r)
      case (Inl e)
      with Some z ffs sel st1 show ?thesis by (simp add: chat_column_def)
    next
      case (Inr sid)
      show ?thesis
      proof (cases "find (\<lambda>g. spill_id g = sid) (f # fs)")
        case None
        with Some z ffs sel st1 Inr show ?thesis by (simp add: chat_column_def)
      next
        case found: (Some props)
        have "chat_column client float_str label uq st =
            chat_input client (Some zm) props (get_history_summary z) uq st1"
          using Some z ffs sel Inr found zm by (simp add: chat_column_def)
        with chat_input_transcript [of client zm props "get_history_summary z" uq st1] st1
        show ?thesis by simp
      qed
    qed
  qed
qed

text \<open>
  Claim C8. A chat turn submitted while a zone and one of its spills are selected appends
  exactly two entries to the transcript, the user's question and then the assistant entry
  holding the gateway's answer or fallback text, whatever the gateway's outcome. In no
  case does the assistant panel leave a user entry without the assistant entry after it.
\<close>

theorem chat_turn_appends_pair:
  "(\<forall>z f q. selected_zone_id st = Some z \<longrightarrow> z \<noteq> [] \<longrightarrow> f \<in> set (get_spill_geojson z) \<longrightarrow>
      q \<noteq> [] \<longrightarrow>
      (\<exists>answer.
         get_ai_response client (get_zone_meta z) f (get_history_summary z) q = Inr answer \<and>
         chat_column client float_str (spill_label float_str f) (Some q) st =
           (st\<lparr>selected_spill_id := Some (spill_id f),
               chat_messages := chat_messages st @
                 [\<lparr>role = ''user'', content = Some q\<rparr>, \<lparr>role = ''assistant'', content = answer\<rparr>]\<rparr>,
            Rerun))) \<and>
   (\<forall>label uq.
      chat_messages (fst (chat_column client float_str label uq st)) = chat_messages st \<or>
      (\<exists>q a. uq = Some q \<and>
         chat_messages (fst (chat_column client float_str label uq st)) =
           chat_messages st @
             [\<lparr>role = ''user'', content = Some q\<rparr>, \<lparr>role = ''assistant'', content = a\<rparr>]))"
proof (intro conjI allI impI)
  fix z f and q :: string
  assume z: "selected_zone_id st = Some z" "z \<noteq> []"
    and f: "f \<in> set (get_spill_geojson z)" and q: "q \<noteq> []"
  from f obtain g gs where ggs: "get_spill_geojson z = g # gs"
    by (cases "get_spill_geojson z") auto
  then have single: "gs = []" and "get_zone_meta z \<noteq> None"
    by (simp_all add: get_spill_geojson_single)
  then obtain zm where zm: "get_zone_meta z = Some zm" by auto
  from f ggs single have feat: "get_spill_geojson z = [f]" by simp
  from get_ai_response_answers [of client zm f "get_history_summary z" q]
  obtain answer where ans:
    "get_ai_response client (Some zm) f (get_history_summary z) q = Inr answer" ..
  have "chat_column client float_str (spill_label float_str f) (Some q) st =
           (st\<lparr>selected_spill_id := Some (spill_id f),
               chat_messages := chat_messages st @
                 [\<lparr>role = ''user'', content = Some q\<rparr>, \<lparr>role = ''assistant'', content = answer\<rparr>]\<rparr>,
            Rerun)"
    using z feat q zm ans
    by (simp add: chat_column_def spill_select_single chat_input_def Let_def
        user_entry_def assistant_entry_def)
  with ans zm show "\<exists>answer.
         get_ai_response client (get_zone_meta z) f (get_history_summary z) q = Inr answer \<and>
         chat_column client float_str (spill_label float_str f) (Some q) st =
           (st\<lparr>selected_spill_id := Some (spill_id f),
               chat_messages := chat_messages st @
                 [\<lparr>role = ''user'', content = Some q\<rparr>, \<lparr>role = ''assistant'', content = answer\<rparr>]\<rparr>,
            Rerun)"
    by simp
next
  fix label uq
  show "chat_messages (fst (chat_column client float_str label uq st)) = chat_messages st \<or>
      (\<exists>q a. uq = Some q \<and>
         chat_messages (fst (chat_column client float_str label uq st)) =
           chat_messages st @
             [\<lparr>role = ''user'', content = Some q\<rparr>, \<lparr>role = ''assistant'', content = a\<rparr>])"
    by (rule chat_column_transcript)
qed

theorem chat_turn_appends_pair_witness:
  "chat_column (Some failing_service) fmt_1f (spill_label fmt_1f props_S1)
     (Some ''What is the risk?'') zone_Z1_selected =
     (zone_Z1_selected\<lparr>selected_spill_id := Some ''S1'',
        chat_messages :=
          [\<lparr>role = ''user'', content = Some ''What is the risk?''\<rparr>,
           \<lparr>role = ''assistant'', content = Some (api_error_text ''Connection error.'')\<rparr>]\<rparr>, Rerun) \<and>
   chat_column None fmt_1f (spill_label fmt_1f props_S1)
     (Some ''What is the risk?'') zone_Z1_selected =
     (zone_Z1_selected\<lparr>selected_spill_id := Some ''S1'',
        chat_messages :=
          [\<lparr>role = ''user'', content = Some ''What is the risk?''\<rparr>,
           \<lparr>role = ''assistant'', content = Some no_key_text\<rparr>]\<rparr>, Rerun)"
proof -
  have z: "selected_zone_id zone_Z1_selected = Some ''Z1''"
    by (simp add: zone_Z1_selected_def)
  have c: "chat_messages zone_Z1_selected = []"
    by (simp add: zone_Z1_selected_def initial_state_def)
  have f: "props_S1 \<in> set (get_spill_geojson ''Z1'')"
    by (simp add: get_spill_geojson_def spill_data_def props_S1_def)
  have zm: "get_zone_meta ''Z1'' =
      Some \<lparr>zone_id = ''Z1'', lat = 40.20, lon = 49.80, scene_id = ''SCENARIO_001''\<rparr>"
    by (simp add: get_zone_meta_def DANGER_ZONES_def)
  have a1: "get_ai_response (Some failing_service) (get_zone_meta ''Z1'') props_S1
      (get_history_summary ''Z1'') ''What is the risk?'' = Inr (Some (api_error_text ''Connection error.''))"
    by (simp add: zm get_ai_response_def failing_service_def)
  have a2: "get_ai_response None (get_zone_meta ''Z1'') props_S1
      (get_history_summary ''Z1'') ''What is the risk?'' = Inr (Some no_key_text)"
    by (simp add: get_ai_response_def)
  have q: "''What is the risk?'' \<noteq> []" by simp
  have s: "spill_id props_S1 = ''S1''" by (simp add: props_S1_def)
  from chat_turn_appends_pair [of zone_Z1_selected "Some failing_service" fmt_1f] z f q
  obtain answer where
    "get_ai_response (Some failing_service) (get_zone_meta ''Z1'') props_S1
       (get_history_summary ''Z1'') ''What is the risk?'' = Inr answer"
    and "chat_column (Some failing_service) fmt_1f (spill_label fmt_1f props_S1)
       (Some ''What is the risk?'') zone_Z1_selected =
       (zone_Z1_selected\<lparr>selected_spill_id := Some (spill_id props_S1),
          chat_messages := chat_messages zone_Z1_selected @
            [\<lparr>role = ''user'', content = Some ''What is the risk?''\<rparr>,
             \<lparr>role = ''assistant'', content = answer\<rparr>]\<rparr>, Rerun)"
    by blast
  with a1 c s have r1: "chat_column (Some failing_service) fmt_1f (spill_label fmt_1f props_S1)
     (Some ''What is the risk?'') zone_Z1_selected =
     (zone_Z1_selected\<lparr>selected_spill_id := Some ''S1'',
        chat_messages :=
          [\<lparr>role = ''user'', content = Some ''What is the risk?''\<rparr>,
           \<lparr>role = ''assistant'', content = Some (api_error_text ''Connection error.'')\<rparr>]\<rparr>, Rerun)"
    by simp
  from chat_turn_appends_pair [of zone_Z1_selected None fmt_1f] z f q
  obtain answer where
    "get_ai_response None (get_zone_meta ''Z1'') props_S1
       (get_history_summary ''Z1'') ''What is the risk?'' = Inr answer"
    and "chat_column None fmt_1f (spill_label fmt_1f props_S1)
       (Some ''What is the risk?'') zone_Z1_selected =
       (zone_Z1_selected\<lparr>selected_spill_id := Some (spill_id props_S1),
          chat_messages := chat_messages zone_Z1_selected @
            [\<lparr>role = ''user'', content = Some ''What is the risk?''\<rparr>,
             \<lparr>role = ''assistant'', content = answer\<rparr>]\<rparr>, Rerun)"
    by blast
  with a2 c s have r2: "chat_column None fmt_1f (spill_label fmt_1f props_S1)
     (Some ''What is the risk?'') zone_Z1_selected =
     (zone_Z1_selected\<lparr>selected_spill_id := Some ''S1'',
        chat_messages :=
          [\<lparr>role = ''user'', content = Some ''What is the risk?''\<rparr>,
           \<lparr>role = ''assistant'', content = Some no_key_text\<rparr>]\<rparr>, Rerun)"
    by simp
  show ?thesis using r1 r2 by simp
qed

section \<open>Cleanup status\<close>

lemma init_cleanup_status_eq:
  "init_cleanup_status = [''S1'' \<mapsto> ''idle'', ''S2'' \<mapsto> ''idle'', ''S3'' \<mapsto> ''idle'']"
  by (simp add: init_cleanup_status_def DANGER_ZONES_def get_spill_geojson_def spill_data_def)

lemma and_then_cases: "and_then r block = r \<or> and_then r block = block (fst r)"
  by (simp add: and_then_def)

lemma sidebar_keeps_status:
  "cleanup_status (fst (sidebar_zone_selection opt st)) = cleanup_status st"
  by (simp add: sidebar_zone_selection_def select_zone_def Let_def)

lemma map_click_keeps_status:
  "cleanup_status (fst (map_click click st)) = cleanup_status st"
  by (simp add: map_click_def select_zone_def split: option.split prod.split)

lemma spill_select_keeps_status:
  "cleanup_status (fst (spill_select float_str f fs label st)) = cleanup_status st"
  by (simp add: spill_select_def coerce_spill_def Let_def split: option.split)

lemma chat_input_keeps_status:
  "cleanup_status (fst (chat_input client zm props h uq st)) = cleanup_status st"
  by (simp add: chat_input_def Let_def split: option.split sum.split)

lemma chat_column_keeps_status:
  "cleanup_status (fst (chat_column client float_str label uq st)) = cleanup_status st"
proof -
  have sel: "cleanup_status (fst (case spill_select float_str f fs label st of
            (st1, Inl e) \<Rightarrow> (st1, Raised e)
          | (st1, Inr sid) \<Rightarrow>
              (case find (\<lambda>g. spill_id g = sid) (f # fs) of
                 None \<Rightarrow> (st1, Raised StopIteration)
               | Some props \<Rightarrow> chat_input client zm props h uq st1))) = cleanup_status st"
    for f fs zm h
  proof (cases "spill_select float_str f fs label st")
    case (Pair st1 r)
    then have same: "cleanup_status st1 = cleanup_status st"
      using spill_select_keeps_status [of float_str f fs label st] by simp
    show ?thesis
    proof (cases r)
      case (Inl e)
      with Pair same show ?thesis by simp
    next
      case (Inr sid)
      with Pair same show ?thesis
        by (simp add: chat_input_keeps_status split: option.split)
    qed
  qed
  show ?thesis
    using sel by (simp add: chat_column_def del: find.simps split: option.split list.split)
qed

lemma cleanup_button_step:
  "status_step (status_get (cleanup_status st) s)
     (status_get (cleanup_status (fst (cleanup_button clicked sid st))) s)"
  by (simp add: cleanup_button_def status_step_def status_get_def Let_def)

lemma cleanup_control_step:
  "status_step (status_get (cleanup_status st) s)
     (status_get (cleanup_status (fst (cleanup_control float_str label clicked st))) s)"
proof -
  have refl: "status_step (status_get (cleanup_status st) s) (status_get (cleanup_status st) s)"
    by (simp add: status_step_def)
  have sel: "status_step (status_get (cleanup_status st) s)
      (status_get (cleanup_status (fst (case spill_select float_str f fs label st of
            (st1, Inl e) \<Rightarrow> (st1, Raised e)
          | (st1, Inr sid) \<Rightarrow> cleanup_button clicked sid st1))) s)" for f fs
  proof (cases "spill_select float_str f fs label st")
    case (Pair st1 r)
    then have same: "cleanup_status st1 = cleanup_status st"
      using spill_select_keeps_status [of float_str f fs label st] by simp
    show ?thesis
    proof (cases r)
      case (Inl e)
      with Pair same refl show ?thesis by simp
    next
      case (Inr sid)
      with Pair same cleanup_button_step [of st1 s clicked sid] show ?thesis by simp
    qed
  qed
  show ?thesis
    using refl sel by (simp add: cleanup_control_def split: option.split list.split)
qed

lemma script_run_step:
  "status_step (status_get (cleanup_status st) s)
     (status_get (cleanup_status (fst (script_run client float_str inp st))) s)"
proof -
  let ?r1 = "and_then (sidebar_zone_selection (selected_zone_option inp) st)
      (map_click (last_object_clicked inp))"
  let ?r2 = "and_then ?r1
      (cleanup_control float_str (cleanup_spill_select inp) (cleanup_clicked inp))"
  let ?r3 = "and_then ?r2
      (chat_column client float_str (assistant_spill_select inp) (user_query inp))"
  have s1: "cleanup_status (fst ?r1) = cleanup_status st"
    using and_then_cases [of "sidebar_zone_selection (selected_zone_option inp) st"
        "map_click (last_object_clicked inp)"]
    by (auto simp: sidebar_keeps_status map_click_keeps_status)
  have s2: "status_step (status_get (cleanup_status st) s) (status_get (cleanup_status (fst ?r2)) s)"
    using and_then_cases [of ?r1
        "cleanup_control float_str (cleanup_spill_select inp) (cleanup_clicked inp)"]
      cleanup_control_step [of "fst ?r1" s float_str "cleanup_spill_select inp" "cleanup_clicked inp"]
      s1
    by (auto simp: status_step_def)
  have s3: "cleanup_status (fst ?r3) = cleanup_status (fst ?r2)"
    using and_then_cases [of ?r2
        "chat_column client float_str (assistant_spill_select inp) (user_query inp)"]
    by (auto simp: chat_column_keeps_status)
  show ?thesis using s2 s3 by (simp add: script_run_def)
qed

lemma reachable_status_values:
  "reachable st \<Longrightarrow> status_get (cleanup_status st) s \<in> {''idle'', ''cleaning'', ''done''}"
proof (induction rule: reachable.induct)
  case reachable_init
  show ?case
    by (simp add: initial_state_def init_cleanup_status_eq status_get_def)
next
  case (reachable_run st client float_str inp)
  from script_run_step [of st s client float_str inp] reachable_run.IH
  show ?case by (auto simp: status_step_def)
qed

text \<open>
  Claim C2. Every spill starts idle, and in one run of the script the status of a spill
  either stays as it is, or goes from idle to cleaning, or from cleaning to done: never
  back, never from idle to done. In every reachable session each status is one of idle,
  cleaning and done.
\<close>

theorem cleanup_status_one_way:
  "(\<forall>s. status_get (cleanup_status initial_state) s = ''idle'') \<and>
   list_all (\<lambda>zn. list_all (\<lambda>f. cleanup_status initial_state (spill_id f) = Some ''idle'')
      (get_spill_geojson (zone_id zn))) DANGER_ZONES \<and>
   (\<forall>s a b. a = status_get (cleanup_status st) s \<longrightarrow>
      b = status_get (cleanup_status (fst (script_run client float_str inp st))) s \<longrightarrow>
      (b = a \<or> a = ''idle'' \<and> b = ''cleaning'' \<or> a = ''cleaning'' \<and> b = ''done'')) \<and>
   (reachable st \<longrightarrow> (\<forall>s. status_get (cleanup_status st) s \<in> {''idle'', ''cleaning'', ''done''}))"
proof (intro conjI allI impI)
  fix s
  show "status_get (cleanup_status initial_state) s = ''idle''"
    by (simp add: initial_state_def init_cleanup_status_eq status_get_def)
next
  show "list_all (\<lambda>zn. list_all (\<lambda>f. cleanup_status initial_state (spill_id f) = Some ''idle'')
      (get_spill_geojson (zone_id zn))) DANGER_ZONES"
    by (simp add: initial_state_def init_cleanup_status_eq DANGER_ZONES_def
        get_spill_geojson_def spill_data_def)
next
  fix s a b
  assume "a = status_get (cleanup_status st) s"
    and "b = status_get (cleanup_status (fst (script_run client float_str inp st))) s"
  with script_run_step [of st s client float_str inp]
  show "b = a \<or> a = ''idle'' \<and> b = ''cleaning'' \<or> a = ''cleaning'' \<and> b = ''done''"
    by (simp add: status_step_def)
next
  fix s assume "reachable st"
  then show "status_get (cleanup_status st) s \<in> {''idle'', ''cleaning'', ''done''}"
    by (rule reachable_status_values)
qed

lemma first_press:
  "script_run None fmt_1f press_cleanup_S1 zone_Z1_selected =
     (zone_Z1_selected\<lparr>selected_spill_id := Some ''S1'',
        cleanup_status := (cleanup_status zone_Z1_selected)(''S1'' \<mapsto> ''cleaning'')\<rparr>, Rerun)"
  by (simp add: script_run_def and_then_def sidebar_zone_selection_def new_zone_id_of_def
      map_click_def cleanup_control_def get_spill_geojson_def spill_data_def spill_select_def
      coerce_spill_def cleanup_button_def st_button_def status_get_def init_cleanup_status_eq
      initial_state_def zone_Z1_selected_def press_cleanup_S1_def props_S1_def Let_def)

lemma second_press:
  "script_run None fmt_1f press_cleanup_S1 after_first_press =
     (after_first_press\<lparr>cleanup_status := (cleanup_status after_first_press)(''S1'' \<mapsto> ''done'')\<rparr>,
      Rerun)"
  by (simp add: after_first_press_def first_press)
    (simp add: script_run_def and_then_def sidebar_zone_selection_def new_zone_id_of_def
      map_click_def cleanup_control_def get_spill_geojson_def spill_data_def spill_select_def
      coerce_spill_def cleanup_button_def st_button_def status_get_def init_cleanup_status_eq
      initial_state_def zone_Z1_selected_def press_cleanup_S1_def props_S1_def Let_def)

lemma status_Z1_selected: "status_get (cleanup_status zone_Z1_selected) ''S1'' = ''idle''"
  by (simp add: zone_Z1_selected_def initial_state_def init_cleanup_status_eq status_get_def)

lemma status_after_first_press: "status_get (cleanup_status after_first_press) ''S1'' = ''cleaning''"
  by (simp add: after_first_press_def first_press status_get_def)

lemma status_after_second_press: "status_get (cleanup_status after_second_press) ''S1'' = ''done''"
  by (simp add: after_second_press_def second_press status_get_def)

theorem cleanup_status_one_way_witness:
  "reachable after_first_press \<and>
   status_get (cleanup_status after_first_press) ''S1'' = ''cleaning'' \<and>
   status_get (cleanup_status after_second_press) ''S1'' \<in> {''cleaning'', ''done''} \<and>
   status_get (cleanup_status after_first_press) ''S2'' \<in> {''idle'', ''cleaning'', ''done''}"
proof -
  have "reachable (fst (script_run None fmt_1f
      (press_cleanup_S1\<lparr>selected_zone_option := ''Z1''\<rparr>) initial_state))"
    by (rule reachable_run [OF reachable_init])
  moreover have "fst (script_run None fmt_1f press_cleanup_S1 initial_state) = zone_Z1_selected"
    by (simp add: script_run_def and_then_def sidebar_zone_selection_def new_zone_id_of_def
        select_zone_def press_cleanup_S1_def zone_Z1_selected_def initial_state_def)
  ultimately have "reachable zone_Z1_selected" by (simp add: press_cleanup_S1_def)
  then have r: "reachable after_first_press"
    unfolding after_first_press_def by (rule reachable_run)
  note step = cleanup_status_one_way [of after_first_press None fmt_1f press_cleanup_S1]
  from step have "status_get (cleanup_status after_second_press) ''S1'' =
      status_get (cleanup_status after_first_press) ''S1'' \<or>
      status_get (cleanup_status after_first_press) ''S1'' = ''idle'' \<and>
      status_get (cleanup_status after_second_press) ''S1'' = ''cleaning'' \<or>
      status_get (cleanup_status after_first_press) ''S1'' = ''cleaning'' \<and>
      status_get (cleanup_status after_second_press) ''S1'' = ''done''"
    unfolding after_second_press_def by blast
  then have two: "status_get (cleanup_status after_second_press) ''S1'' \<in> {''cleaning'', ''done''}"
    using status_after_first_press by auto
  from step r have "status_get (cleanup_status after_first_press) ''S2'' \<in>
      {''idle'', ''cleaning'', ''done''}"
    by blast
  with r two status_after_first_press show ?thesis by simp
qed

text \<open>
  Claim C3 as stated fails: with zone Z1 selected, the first press of the cleanup button
  for S1 sets its status to cleaning and the second press, made while it is cleaning,
  is not rejected but sets it to done.
\<close>

theorem dispatch_twice_counterexample:
  "status_get (cleanup_status zone_Z1_selected) ''S1'' = ''idle'' \<and>
   status_get (cleanup_status after_first_press) ''S1'' = ''cleaning'' \<and>
   status_get (cleanup_status after_second_press) ''S1'' = ''done'' \<and>
   status_get (cleanup_status after_second_press) ''S1'' \<noteq>
     status_get (cleanup_status after_first_press) ''S1''"
  by (simp add: status_Z1_selected status_after_first_press status_after_second_press)

text \<open>
  Claim C3, amended. For a spill whose status is done the cleanup action leaves the whole
  session state unchanged (the button is disabled). For a spill that is cleaning the
  action completes the cleanup and sets the status to done; for an idle spill it sets the
  status to cleaning, so two actions in a row on an idle spill leave it done.
\<close>

theorem cleanup_action_by_status:
  "(status_get (cleanup_status st) sid = ''done'' \<longrightarrow>
      cleanup_button clicked sid st = (st, Continue)) \<and>
   (status_get (cleanup_status st) sid = ''cleaning'' \<longrightarrow>
      cleanup_button True sid st =
        (st\<lparr>cleanup_status := (cleanup_status st)(sid \<mapsto> ''done'')\<rparr>, Rerun)) \<and>
   (status_get (cleanup_status st) sid = ''idle'' \<longrightarrow>
      cleanup_button True sid st =
        (st\<lparr>cleanup_status := (cleanup_status st)(sid \<mapsto> ''cleaning'')\<rparr>, Rerun) \<and>
      status_get (cleanup_status (fst (cleanup_button True sid st))) sid = ''cleaning'' \<and>
      status_get (cleanup_status
        (fst (cleanup_button True sid (fst (cleanup_button True sid st))))) sid = ''done'')"
  by (simp add: cleanup_button_def st_button_def status_get_def Let_def)

theorem cleanup_action_by_status_witness:
  "cleanup_button True ''S1'' after_second_press = (after_second_press, Continue) \<and>
   cleanup_button True ''S1'' after_first_press =
     (after_first_press\<lparr>cleanup_status := (cleanup_status after_first_press)(''S1'' \<mapsto> ''done'')\<rparr>,
      Rerun) \<and>
   status_get (cleanup_status
     (fst (cleanup_button True ''S1'' (fst (cleanup_button True ''S1'' zone_Z1_selected))))) ''S1'' =
     ''done''"
proof -
  from cleanup_action_by_status [of after_second_press "''S1''" True] status_after_second_press
  have a: "cleanup_button True ''S1'' after_second_press = (after_second_press, Continue)"
    by blast
  from cleanup_action_by_status [of after_first_press "''S1''" True] status_after_first_press
  have b: "cleanup_button True ''S1'' after_first_press =
     (after_first_press\<lparr>cleanup_status := (cleanup_status after_first_press)(''S1'' \<mapsto> ''done'')\<rparr>,
      Rerun)"
    by blast
  from cleanup_action_by_status [of zone_Z1_selected "''S1''" True] status_Z1_selected
  have c: "status_get (cleanup_status
     (fst (cleanup_button True ''S1'' (fst (cleanup_button True ''S1'' zone_Z1_selected))))) ''S1'' =
     ''done''"
    by blast
  from a b c show ?thesis by blast
qed

section \<open>Spill selection\<close>

lemma index_of_less: "index_of xs y = Some i \<Longrightarrow> i < length xs"
  by (induction xs arbitrary: i) (auto split: if_splits)

lemma coerce_spill_zone: "selected_zone_id (coerce_spill ids st) = selected_zone_id st"
  by (simp add: coerce_spill_def)

lemma coerce_spill_member:
  "ids \<noteq> [] \<Longrightarrow> selected_spill_id (coerce_spill ids st) \<in> Some ` set ids"
  by (cases ids) (auto simp: coerce_spill_def split: option.splits)

lemma spill_select_zone:
  "selected_zone_id (fst (spill_select float_str f fs label st)) = selected_zone_id st"
  by (simp add: spill_select_def Let_def coerce_spill_zone split: option.split)

lemma nth_map_member: "i < length xs \<Longrightarrow> map g xs ! i \<in> g ` set xs"
  by simp

lemma spill_select_member:
  "selected_spill_id (fst (spill_select float_str f fs label st)) \<in> Some ` spill_id ` set (f # fs)"
proof -
  define xs where "xs = f # fs"
  have ne: "map spill_id xs \<noteq> []" by (simp add: xs_def)
  have sel: "spill_select float_str f fs label st =
      (case index_of (map (spill_label float_str) xs) label of
         None \<Rightarrow> (coerce_spill (map spill_id xs) st, Inl ValueError)
       | Some i \<Rightarrow>
           ((coerce_spill (map spill_id xs) st)\<lparr>selected_spill_id := Some (map spill_id xs ! i)\<rparr>,
            Inr (map spill_id xs ! i)))"
    unfolding xs_def spill_select_def Let_def by (rule refl)
  show ?thesis
  proof (cases "index_of (map (spill_label float_str) xs) label")
    case None
    from coerce_spill_member [OF ne, of st]
    have "selected_spill_id (coerce_spill (map spill_id xs) st) \<in> Some ` spill_id ` set xs"
      by (simp add: image_image)
    with None sel show ?thesis by (simp add: xs_def [symmetric])
  next
    case (Some i)
    then have "i < length xs" using index_of_less by fastforce
    then have "map spill_id xs ! i \<in> spill_id ` set xs" by (rule nth_map_member)
    with Some sel show ?thesis by (simp add: xs_def [symmetric])
  qed
qed

lemma cleanup_button_selection:
  "selected_zone_id (fst (cleanup_button clicked sid st)) = selected_zone_id st \<and>
   selected_spill_id (fst (cleanup_button clicked sid st)) = selected_spill_id st"
  by (simp add: cleanup_button_def Let_def)

lemma chat_input_selection:
  "selected_zone_id (fst (chat_input client zm props h uq st)) = selected_zone_id st \<and>
   selected_spill_id (fst (chat_input client zm props h uq st)) = selected_spill_id st"
  by (simp add: chat_input_def Let_def split: option.split sum.split)

lemma cleanup_control_skip:
  "\<not> zone_with_spills st \<Longrightarrow> cleanup_control float_str label clicked st = (st, Continue)"
  by (auto simp: zone_with_spills_def cleanup_control_def split: option.splits list.splits)

lemma chat_column_skip:
  "\<not> zone_with_spills st \<Longrightarrow> chat_column client float_str label uq st = (st, Continue)"
  by (auto simp: zone_with_spills_def chat_column_def split: option.splits list.splits)

lemma cleanup_control_selection:
  assumes "selected_zone_id st = Some z" "z \<noteq> []" "get_spill_geojson z = f # fs"
  shows "selected_zone_id (fst (cleanup_control float_str label clicked st)) = Some z \<and>
         selected_spill_id (fst (cleanup_control float_str label clicked st))
           \<in> Some ` spill_id ` set (f # fs)"
proof (cases "spill_select float_str f fs label st")
  case (Pair st1 r)
  have z1: "selected_zone_id st1 = Some z"
    using spill_select_zone [of float_str f fs label st] Pair assms(1) by simp
  have m1: "selected_spill_id st1 \<in> Some ` spill_id ` set (f # fs)"
    using spill_select_member [of float_str f fs label st] Pair by simp
  show ?thesis
  proof (cases r)
    case (Inl e)
    with Pair assms z1 m1 show ?thesis by (simp add: cleanup_control_def)
  next
    case (Inr sid)
    with Pair assms z1 m1 cleanup_button_selection [of clicked sid st1]
    show ?thesis by (simp add: cleanup_control_def)
  qed
qed

lemma chat_column_selection:
  assumes "selected_zone_id st = Some z" "z \<noteq> []" "get_spill_geojson z = f # fs"
  shows "selected_zone_id (fst (chat_column client float_str label uq st)) = Some z \<and>
         selected_spill_id (fst (chat_column client float_str label uq st))
           \<in> Some ` spill_id ` set (f # fs)"
proof (cases "spill_select float_str f fs label st")
  case (Pair st1 r)
  have z1: "selected_zone_id st1 = Some z"
    using spill_select_zone [of float_str f fs label st] Pair assms(1) by simp
  have m1: "selected_spill_id st1 \<in> Some ` spill_id ` set (f # fs)"
    using spill_select_member [of float_str f fs label st] Pair by simp
  show ?thesis
  proof (cases r)
    case (Inl e)
    with Pair assms z1 m1 show ?thesis by (simp add: chat_column_def)
  next
    case (Inr sid)
    show ?thesis
    proof (cases "find (\<lambda>g. spill_id g = sid) (f # fs)")
      case None
      with Inr Pair assms z1 m1 show ?thesis by (simp add: chat_column_def del: find.simps)
    next
      case (Some props)
      with Inr Pair assms z1 m1
        chat_input_selection [of client "get_zone_meta z" props "get_history_summary z" uq st1]
      show ?thesis by (simp add: chat_column_def del: find.simps)
    qed
  qed
qed

lemma member_invariant:
  "selected_zone_id st = Some z \<Longrightarrow> get_spill_geojson z = f # fs \<Longrightarrow>
   selected_spill_id st \<in> Some ` spill_id ` set (f # fs) \<Longrightarrow> spill_in_selected_zone st"
  by (auto simp: spill_in_selected_zone_def)

lemma select_zone_invariant: "spill_in_selected_zone (select_zone z st)"
  by (simp add: select_zone_def spill_in_selected_zone_def)

lemma sidebar_invariant:
  "spill_in_selected_zone st \<Longrightarrow> spill_in_selected_zone (fst (sidebar_zone_selection opt st))"
  by (cases "new_zone_id_of opt = selected_zone_id st")
    (simp_all add: sidebar_zone_selection_def Let_def select_zone_invariant)

lemma map_click_invariant:
  "spill_in_selected_zone st \<Longrightarrow> spill_in_selected_zone (fst (map_click click st))"
proof (cases click)
  case None
  assume "spill_in_selected_zone st"
  with None show ?thesis by (simp add: map_click_def)
next
  case (Some p)
  assume inv: "spill_in_selected_zone st"
  obtain clat clon where p: "p = (clat, clon)" by (cases p)
  show ?thesis
  proof (cases "resolve_click clat clon")
    case None
    with Some p inv show ?thesis by (simp add: map_click_def)
  next
    case (Some zn)
    with \<open>click = Some p\<close> p show ?thesis
      by (simp add: map_click_def select_zone_invariant)
  qed
qed

lemma cleanup_control_invariant:
  "spill_in_selected_zone st \<Longrightarrow>
   spill_in_selected_zone (fst (cleanup_control float_str label clicked st))"
proof (cases "zone_with_spills st")
  case False
  assume "spill_in_selected_zone st"
  with False show ?thesis by (simp add: cleanup_control_skip)
next
  case True
  then obtain z f fs where z: "selected_zone_id st = Some z" "z \<noteq> []"
    "get_spill_geojson z = f # fs"
    by (auto simp: zone_with_spills_def neq_Nil_conv split: option.splits)
  from cleanup_control_selection [OF z, of float_str label clicked]
  have a: "selected_zone_id (fst (cleanup_control float_str label clicked st)) = Some z"
    and b: "selected_spill_id (fst (cleanup_control float_str label clicked st))
      \<in> Some ` spill_id ` set (f # fs)"
    by simp_all
  show ?thesis by (rule member_invariant [OF a z(3) b])
qed

lemma chat_column_invariant:
  "spill_in_selected_zone st \<Longrightarrow>
   spill_in_selected_zone (fst (chat_column client float_str label uq st))"
proof (cases "zone_with_spills st")
  case False
  assume "spill_in_selected_zone st"
  with False show ?thesis by (simp add: chat_column_skip)
next
  case True
  then obtain z f fs where z: "selected_zone_id st = Some z" "z \<noteq> []"
    "get_spill_geojson z = f # fs"
    by (auto simp: zone_with_spills_def neq_Nil_conv split: option.splits)
  from chat_column_selection [OF z, of client float_str label uq]
  have a: "selected_zone_id (fst (chat_column client float_str label uq st)) = Some z"
    and b: "selected_spill_id (fst (chat_column client float_str label uq st))
      \<in> Some ` spill_id ` set (f # fs)"
    by simp_all
  show ?thesis by (rule member_invariant [OF a z(3) b])
qed

lemma and_then_invariant:
  "spill_in_selected_zone (fst r) \<Longrightarrow>
   (\<And>st. spill_in_selected_zone st \<Longrightarrow> spill_in_selected_zone (fst (block st))) \<Longrightarrow>
   spill_in_selected_zone (fst (and_then r block))"
  by (simp add: and_then_def)

lemma script_run_invariant:
  "spill_in_selected_zone st \<Longrightarrow>
   spill_in_selected_zone (fst (script_run client float_str inp st))"
proof -
  assume inv: "spill_in_selected_zone st"
  let ?r1 = "and_then (sidebar_zone_selection (selected_zone_option inp) st)
      (map_click (last_object_clicked inp))"
  let ?r2 = "and_then ?r1
      (cleanup_control float_str (cleanup_spill_select inp) (cleanup_clicked inp))"
  have "spill_in_selected_zone (fst (sidebar_zone_selection (selected_zone_option inp) st))"
    using inv by (rule sidebar_invariant)
  then have 1: "spill_in_selected_zone (fst ?r1)"
    by (rule and_then_invariant) (rule map_click_invariant)
  then have 2: "spill_in_selected_zone (fst ?r2)"
    by (rule and_then_invariant) (rule cleanup_control_invariant)
  then have "spill_in_selected_zone (fst (and_then ?r2
      (chat_column client float_str (assistant_spill_select inp) (user_query inp))))"
    by (rule and_then_invariant) (rule chat_column_invariant)
  then show ?thesis by (simp add: script_run_def)
qed

lemma initial_invariant: "spill_in_selected_zone initial_state"
  by (simp add: spill_in_selected_zone_def initial_state_def)

lemma reachable_invariant: "reachable st \<Longrightarrow> spill_in_selected_zone st"
  by (induction rule: reachable.induct) (simp_all add: initial_invariant script_run_invariant)

text \<open>
  Claim C9. In every reachable session state a selected spill belongs to the spill set of
  the selected zone. The invariant holds initially and is preserved by the zone selector,
  a map click, the cleanup control with its spill selector and button, the assistant
  panel with its spill selector and chat turn, and so by every run of the script.
\<close>

theorem selection_invariant:
  "spill_in_selected_zone initial_state \<and>
   (spill_in_selected_zone st \<longrightarrow>
      spill_in_selected_zone (fst (sidebar_zone_selection opt st)) \<and>
      spill_in_selected_zone (fst (map_click click st)) \<and>
      spill_in_selected_zone (fst (cleanup_control float_str label clicked st)) \<and>
      spill_in_selected_zone (fst (chat_column client float_str label uq st)) \<and>
      spill_in_selected_zone (fst (script_run client float_str inp st))) \<and>
   (reachable st \<longrightarrow> spill_in_selected_zone st)"
  by (simp add: initial_invariant sidebar_invariant map_click_invariant
      cleanup_control_invariant chat_column_invariant script_run_invariant reachable_invariant)

lemma reachable_after_first_press: "reachable after_first_press"
proof -
  have "reachable (fst (script_run None fmt_1f press_cleanup_S1 initial_state))"
    by (rule reachable_run [OF reachable_init])
  moreover have "fst (script_run None fmt_1f press_cleanup_S1 initial_state) = zone_Z1_selected"
    by (simp add: script_run_def and_then_def sidebar_zone_selection_def new_zone_id_of_def
        select_zone_def press_cleanup_S1_def zone_Z1_selected_def initial_state_def)
  ultimately have "reachable zone_Z1_selected" by simp
  then show ?thesis unfolding after_first_press_def by (rule reachable_run)
qed

theorem selection_invariant_witness:
  "reachable after_first_press \<and> spill_in_selected_zone after_first_press \<and>
   selected_spill_id after_first_press = Some ''S1'' \<and>
   spill_in_selected_zone (fst (sidebar_zone_selection ''Z2'' after_first_press)) \<and>
   spill_in_selected_zone (fst (script_run None fmt_1f press_cleanup_S1 after_first_press))"
proof -
  note inv = selection_invariant [of after_first_press "''Z2''" None fmt_1f
      "spill_label fmt_1f props_S1" True None None press_cleanup_S1]
  from inv reachable_after_first_press have a: "spill_in_selected_zone after_first_press"
    by blast
  with inv have b: "spill_in_selected_zone (fst (sidebar_zone_selection ''Z2'' after_first_press))"
    and c: "spill_in_selected_zone (fst (script_run None fmt_1f press_cleanup_S1 after_first_press))"
    by blast+
  have d: "selected_spill_id after_first_press = Some ''S1''"
    by (simp add: after_first_press_def first_press)
  from reachable_after_first_press a b c d show ?thesis by blast
qed

section \<open>Coercion of the spill selection\<close>

lemma and_then_continue:
  "snd (and_then r block) = Continue \<Longrightarrow> snd r = Continue \<and> and_then r block = block (fst r)"
  by (simp add: and_then_def split: if_splits)

lemma sidebar_continue:
  "snd (sidebar_zone_selection opt st) = Continue \<Longrightarrow> fst (sidebar_zone_selection opt st) = st"
  by (simp add: sidebar_zone_selection_def Let_def split: if_splits)

lemma map_click_continue:
  "snd (map_click click st) = Continue \<Longrightarrow> fst (map_click click st) = st"
  by (simp add: map_click_def split: option.splits prod.splits)

lemma cleanup_control_zone:
  "selected_zone_id (fst (cleanup_control float_str label clicked st)) = selected_zone_id st"
proof (cases "zone_with_spills st")
  case False
  then show ?thesis by (simp add: cleanup_control_skip)
next
  case True
  then obtain z f fs where z: "selected_zone_id st = Some z" "z \<noteq> []"
    "get_spill_geojson z = f # fs"
    by (auto simp: zone_with_spills_def neq_Nil_conv split: option.splits)
  from cleanup_control_selection [OF z, of float_str label clicked] z(1)
  show ?thesis by simp
qed

lemma coerce_spill_first:
  "(case selected_spill_id st of None \<Rightarrow> True | Some s \<Rightarrow> s \<notin> set (map spill_id (f # fs))) \<Longrightarrow>
   coerce_spill (map spill_id (f # fs)) st = st\<lparr>selected_spill_id := Some (spill_id f)\<rparr>"
  by (auto simp: coerce_spill_def split: option.splits)

lemma completed_run_has_spill:
  assumes fl: "snd (script_run client float_str inp st) = Continue"
    and zs: "zone_with_spills (fst (script_run client float_str inp st))"
  shows "selected_spill_id (fst (script_run client float_str inp st)) \<noteq> None"
proof -
  let ?a = "sidebar_zone_selection (selected_zone_option inp) st"
  let ?r1 = "and_then ?a (map_click (last_object_clicked inp))"
  let ?cc = "cleanup_control float_str (cleanup_spill_select inp) (cleanup_clicked inp)"
  let ?r2 = "and_then ?r1 ?cc"
  let ?ch = "chat_column client float_str (assistant_spill_select inp) (user_query inp)"
  have run: "script_run client float_str inp st = and_then ?r2 ?ch"
    by (simp add: script_run_def)
  from fl run and_then_continue [of ?r2 ?ch]
  have c2: "snd ?r2 = Continue" and e3: "script_run client float_str inp st = ?ch (fst ?r2)"
    by simp_all
  from c2 and_then_continue [of ?r1 ?cc]
  have c1: "snd ?r1 = Continue" and e2: "?r2 = ?cc (fst ?r1)" by simp_all
  from c1 and_then_continue [of ?a "map_click (last_object_clicked inp)"]
  have c0: "snd ?a = Continue" and e1: "?r1 = map_click (last_object_clicked inp) (fst ?a)"
    by simp_all
  from c0 have a: "fst ?a = st" by (rule sidebar_continue)
  from c1 e1 a have r1: "fst ?r1 = st" by (simp add: map_click_continue)
  let ?st2 = "fst (?cc st)"
  from e2 r1 have r2: "fst ?r2 = ?st2" by simp
  show ?thesis
  proof (cases "zone_with_spills ?st2")
    case False
    then have "?ch ?st2 = (?st2, Continue)" by (rule chat_column_skip)
    with e3 r2 zs False show ?thesis by simp
  next
    case True
    then obtain z f fs where z: "selected_zone_id ?st2 = Some z" "z \<noteq> []"
      "get_spill_geojson z = f # fs"
      by (auto simp: zone_with_spills_def neq_Nil_conv split: option.splits)
    from chat_column_selection [OF z, of client float_str "assistant_spill_select inp"
        "user_query inp"] e3 r2
    show ?thesis by auto
  qed
qed

text \<open>
  Claim C10. While a zone with at least one spill is selected, a selected spill id that is
  none or outside the zone is replaced by the first spill of the zone's list before the
  selector is read. After the cleanup control and after the assistant panel the selected
  spill is one of the zone's spills, never none, whatever the widgets returned; so it is
  after every run that completes with such a zone selected.
\<close>

theorem spill_selection_coerced:
  "(\<forall>z f fs. selected_zone_id st = Some z \<longrightarrow> z \<noteq> [] \<longrightarrow> get_spill_geojson z = f # fs \<longrightarrow>
      ((case selected_spill_id st of None \<Rightarrow> True
        | Some s \<Rightarrow> s \<notin> set (map spill_id (f # fs))) \<longrightarrow>
         coerce_spill (map spill_id (f # fs)) st = st\<lparr>selected_spill_id := Some (spill_id f)\<rparr>) \<and>
      selected_spill_id (fst (cleanup_control float_str label clicked st))
        \<in> Some ` spill_id ` set (f # fs) \<and>
      selected_spill_id (fst (chat_column client float_str label uq st))
        \<in> Some ` spill_id ` set (f # fs) \<and>
      selected_spill_id (fst (cleanup_control float_str label clicked st)) \<noteq> None \<and>
      selected_spill_id (fst (chat_column client float_str label uq st)) \<noteq> None) \<and>
   (snd (script_run client float_str inp st) = Continue \<longrightarrow>
    zone_with_spills (fst (script_run client float_str inp st)) \<longrightarrow>
      selected_spill_id (fst (script_run client float_str inp st)) \<noteq> None)"
proof (intro conjI allI impI)
  fix z f fs
  assume "case selected_spill_id st of None \<Rightarrow> True
        | Some s \<Rightarrow> s \<notin> set (map spill_id (f # fs))"
  then show "coerce_spill (map spill_id (f # fs)) st = st\<lparr>selected_spill_id := Some (spill_id f)\<rparr>"
    by (rule coerce_spill_first)
next
  fix z f fs
  assume z: "selected_zone_id st = Some z" "z \<noteq> []" "get_spill_geojson z = f # fs"
  from cleanup_control_selection [OF z, of float_str label clicked]
  show "selected_spill_id (fst (cleanup_control float_str label clicked st))
        \<in> Some ` spill_id ` set (f # fs)"
    by simp
  then show "selected_spill_id (fst (cleanup_control float_str label clicked st)) \<noteq> None"
    by auto
  from chat_column_selection [OF z, of client float_str label uq]
  show "selected_spill_id (fst (chat_column client float_str label uq st))
        \<in> Some ` spill_id ` set (f # fs)"
    by simp
  then show "selected_spill_id (fst (chat_column client float_str label uq st)) \<noteq> None"
    by auto
next
  assume "snd (script_run client float_str inp st) = Continue"
    and "zone_with_spills (fst (script_run client float_str inp st))"
  then show "selected_spill_id (fst (script_run client float_str inp st)) \<noteq> None"
    by (rule completed_run_has_spill)
qed

lemma features_Z1: "get_spill_geojson ''Z1'' = [props_S1]"
  by (simp add: get_spill_geojson_def spill_data_def props_S1_def)

theorem spill_selection_coerced_witness:
  "selected_zone_id zone_Z1_selected = Some ''Z1'' \<and>
   selected_spill_id zone_Z1_selected = None \<and>
   coerce_spill (map spill_id [props_S1]) zone_Z1_selected =
     zone_Z1_selected\<lparr>selected_spill_id := Some ''S1''\<rparr> \<and>
   selected_spill_id (fst (cleanup_control fmt_1f ''no such label'' False zone_Z1_selected)) =
     Some ''S1'' \<and>
   selected_spill_id (fst (chat_column None fmt_1f (spill_label fmt_1f props_S1) None
     zone_Z1_selected)) = Some ''S1''"
proof -
  have z: "selected_zone_id zone_Z1_selected = Some ''Z1''"
    and n: "selected_spill_id zone_Z1_selected = None"
    by (simp_all add: zone_Z1_selected_def initial_state_def)
  have s: "spill_id props_S1 = ''S1''" by (simp add: props_S1_def)
  have ne: "''Z1'' \<noteq> []" by simp
  note c = spill_selection_coerced [where st = zone_Z1_selected and float_str = fmt_1f
      and label = "''no such label''" and clicked = False,
      THEN conjunct1, rule_format, OF z ne features_Z1]
  note c' = spill_selection_coerced [where st = zone_Z1_selected and float_str = fmt_1f
      and label = "spill_label fmt_1f props_S1" and client = None and uq = None,
      THEN conjunct1, rule_format, OF z ne features_Z1]
  have "case selected_spill_id zone_Z1_selected of None \<Rightarrow> True
      | Some s \<Rightarrow> s \<notin> set (map spill_id [props_S1])"
    by (simp add: n)
  with c [THEN conjunct1]
  have "coerce_spill (map spill_id [props_S1]) zone_Z1_selected =
      zone_Z1_selected\<lparr>selected_spill_id := Some (spill_id props_S1)\<rparr>"
    by (rule mp)
  then have a: "coerce_spill (map spill_id [props_S1]) zone_Z1_selected =
      zone_Z1_selected\<lparr>selected_spill_id := Some ''S1''\<rparr>"
    by (simp only: s)
  have "selected_spill_id (fst (cleanup_control fmt_1f ''no such label'' False zone_Z1_selected))
      \<in> Some ` spill_id ` set [props_S1]"
    by (rule c [THEN conjunct2, THEN conjunct1])
  then have b: "selected_spill_id
      (fst (cleanup_control fmt_1f ''no such label'' False zone_Z1_selected)) = Some ''S1''"
    using s by simp
  have "selected_spill_id (fst (chat_column None fmt_1f (spill_label fmt_1f props_S1) None
      zone_Z1_selected)) \<in> Some ` spill_id ` set [props_S1]"
    by (rule c' [THEN conjunct2, THEN conjunct2, THEN conjunct1])
  then have d: "selected_spill_id (fst (chat_column None fmt_1f (spill_label fmt_1f props_S1)
      None zone_Z1_selected)) = Some ''S1''"
    using s by simp
  show ?thesis
    by (intro conjI) (rule z n a b d)+
qed



















end
